theory Spec2Isabelle
  imports Main "HOL-Library.Sublist"
begin

section \<open>Data model\<close>

text \<open>
  A character of the model is one code unit of a JavaScript string, in the range 0 to 255
  (Latin-1 text); text with higher code units is not represented. A stored document id is
  the string form of the store's object id, 24 lower-case hex digits, which is what
  \<^verbatim>\<open>toString()\<close> gives and what the controllers compare
  (\<^verbatim>\<open>post.author.toString() !== req.userId\<close>).
\<close>

type_synonym oid = string

datatype role = USER | BLOGGER | ADMIN

record post =
  post_id :: oid
  title :: string
  content :: string
  author :: oid
  allowed :: bool

record user =
  user_id :: oid
  email :: string
  password :: string
  firstName :: string
  lastName :: string
  role :: role
  posts :: "oid list"

text \<open>
  The two collections in their natural order, and whether the store answers at all:
  every store call of the controllers is awaited inside \<^verbatim>\<open>try\<close> and may reject.
\<close>

record db =
  postColl :: "post list"
  userColl :: "user list"
  connected :: bool

text \<open>A JavaScript \<^verbatim>\<open>Error\<close> with the two optional fields the controllers attach.\<close>

record jserror =
  statusCode :: "nat option"
  message :: string
  errdata :: "string list option"

definition mkError :: "nat \<Rightarrow> string \<Rightarrow> jserror" where
  "mkError s m = \<lparr>statusCode = Some s, message = m, errdata = None\<rparr>"

text \<open>A rejected store call, and a property read on \<^verbatim>\<open>null\<close>: neither has a status code.\<close>

definition storeError :: jserror where
  "storeError = \<lparr>statusCode = None, message = ''store error'', errdata = None\<rparr>"

definition typeError :: jserror where
  "typeError = \<lparr>statusCode = None, message = ''Cannot read properties of null'', errdata = None\<rparr>"

datatype payload =
    PostsPayload string "post list" nat
  | PostPayload string post
  | CreatedPayload string post oid string
  | UsersPayload string "user list"
  | UserPayload string user
  | RegisteredPayload string oid
  | TokenPayload string oid

text \<open>
  What a handler does with the request: it answers (\<^verbatim>\<open>res.status(s).json(b)\<close>), it hands
  an error to the central responder (\<^verbatim>\<open>next(err)\<close>), or it throws outside any
  \<^verbatim>\<open>try\<close>, which rejects the handler's promise.
\<close>

datatype outcome = Json nat payload | Next jserror | Threw jserror

fun failStatus :: "outcome \<Rightarrow> nat option" where
  "failStatus (Json s b) = None"
| "failStatus (Next e) = statusCode e"
| "failStatus (Threw e) = statusCode e"

fun failMessage :: "outcome \<Rightarrow> string option" where
  "failMessage (Json s b) = None"
| "failMessage (Next e) = Some (message e)"
| "failMessage (Threw e) = Some (message e)"

text \<open>The common \<^verbatim>\<open>catch\<close> block: \<^verbatim>\<open>if (!err.statusCode) err.statusCode = 500; next(err)\<close>.\<close>

definition falsyStatus :: "nat option \<Rightarrow> bool" where
  "falsyStatus s = (s = None \<or> s = Some 0)"

definition catchBlock :: "jserror \<Rightarrow> jserror" where
  "catchBlock err = (if falsyStatus (statusCode err) then err\<lparr>statusCode := Some 500\<rparr> else err)"

definition tryCatch :: "(jserror + nat \<times> payload) \<times> db \<Rightarrow> outcome \<times> db" where
  "tryCatch r =
     (case fst r of
        Inl err \<Rightarrow> (Next (catchBlock err), snd r)
      | Inr (s, b) \<Rightarrow> (Json s b, snd r))"

section \<open>Casting a string to an object id\<close>

text \<open>
  \<^verbatim>\<open>findById\<close>, \<^verbatim>\<open>findByIdAndRemove\<close>, a query on \<^verbatim>\<open>author\<close>, \<^verbatim>\<open>new Post({ author })\<close> and
  \<^verbatim>\<open>posts.pull\<close> cast the string they are given to an object id. The object id
  constructor of the driver generation that still has \<^verbatim>\<open>findByIdAndRemove\<close> takes a
  string of 12 bytes, whose bytes become the id, or a string of 24 hex digits in either
  case; any other string is a cast error. The result is given in its string form.
\<close>

definition isHexDigit :: "char \<Rightarrow> bool" where
  "isHexDigit ch = (ch \<in> set ''0123456789abcdefABCDEF'')"

definition lowerHex :: "char \<Rightarrow> char" where
  "lowerHex ch =
     (if ch = CHR ''A'' then CHR ''a'' else if ch = CHR ''B'' then CHR ''b''
      else if ch = CHR ''C'' then CHR ''c'' else if ch = CHR ''D'' then CHR ''d''
      else if ch = CHR ''E'' then CHR ''e'' else if ch = CHR ''F'' then CHR ''f''
      else ch)"

definition hexDigit :: "nat \<Rightarrow> char" where
  "hexDigit n = ''0123456789abcdef'' ! (n mod 16)"

definition hexOfChar :: "char \<Rightarrow> string" where
  "hexOfChar ch = [hexDigit ((of_char ch :: nat) div 16), hexDigit ((of_char ch :: nat) mod 16)]"

definition castObjectId :: "string \<Rightarrow> oid option" where
  "castObjectId s =
     (if length s = 12 \<and> list_all (\<lambda>ch. (of_char ch :: nat) < 128) s
      then Some (concat (map hexOfChar s))
      else if length s = 24 \<and> list_all isHexDigit s then Some (map lowerHex s)
      else None)"

definition castError :: "string \<Rightarrow> jserror" where
  "castError s =
     \<lparr>statusCode = None, message = ''Cast to ObjectId failed for value '' @ s, errdata = None\<rparr>"

section \<open>Store operations\<close>

text \<open>
  \<^verbatim>\<open>findById\<close> with a string from the route or the token: the cast comes first, and a
  failed cast rejects the call without a status code.
\<close>

definition findPostById :: "db \<Rightarrow> string \<Rightarrow> jserror + post option" where
  "findPostById d i =
     (case castObjectId i of
        None \<Rightarrow> Inl (castError i)
      | Some j \<Rightarrow>
          if connected d then Inr (find (\<lambda>p. post_id p = j) (postColl d)) else Inl storeError)"

text \<open>\<^verbatim>\<open>User.findById(undefined)\<close> finds nothing.\<close>

definition findUserById :: "db \<Rightarrow> string option \<Rightarrow> jserror + user option" where
  "findUserById d i =
     (case i of
        None \<Rightarrow> if connected d then Inr None else Inl storeError
      | Some s \<Rightarrow>
          (case castObjectId s of
             None \<Rightarrow> Inl (castError s)
           | Some j \<Rightarrow>
               if connected d then Inr (find (\<lambda>u. user_id u = j) (userColl d))
               else Inl storeError))"

text \<open>\<^verbatim>\<open>User.findById(post.author)\<close>: the argument is an object id already.\<close>

definition findUserByObjectId :: "db \<Rightarrow> oid \<Rightarrow> jserror + user option" where
  "findUserByObjectId d j =
     (if connected d then Inr (find (\<lambda>u. user_id u = j) (userColl d)) else Inl storeError)"

definition findUserByEmail :: "db \<Rightarrow> string \<Rightarrow> jserror + user option" where
  "findUserByEmail d e =
     (if connected d then Inr (find (\<lambda>u. email u = e) (userColl d)) else Inl storeError)"

definition findAllUsers :: "db \<Rightarrow> jserror + user list" where
  "findAllUsers d = (if connected d then Inr (userColl d) else Inl storeError)"

text \<open>
  \<^verbatim>\<open>find(filter).skip(s).limit(l)\<close>: the store rejects a negative skip.
\<close>

definition findPosts :: "db \<Rightarrow> (post \<Rightarrow> bool) \<Rightarrow> int \<Rightarrow> nat \<Rightarrow> jserror + post list" where
  "findPosts d flt s l =
     (if connected d \<and> 0 \<le> s
      then Inr (take l (drop (nat s) (filter flt (postColl d))))
      else Inl storeError)"

definition countPosts :: "db \<Rightarrow> (post \<Rightarrow> bool) \<Rightarrow> jserror + nat" where
  "countPosts d flt =
     (if connected d then Inr (length (filter flt (postColl d))) else Inl storeError)"

text \<open>\<^verbatim>\<open>save()\<close> of a loaded document writes it back under its id.\<close>

definition replaceById :: "('a \<Rightarrow> oid) \<Rightarrow> 'a \<Rightarrow> 'a list \<Rightarrow> 'a list" where
  "replaceById key x xs = map (\<lambda>y. if key y = key x then x else y) xs"

definition savePost :: "db \<Rightarrow> post \<Rightarrow> jserror + db" where
  "savePost d p =
     (if connected d
      then Inr (d\<lparr>postColl := replaceById post_id p (postColl d)\<rparr>)
      else Inl storeError)"

definition saveUser :: "db \<Rightarrow> user \<Rightarrow> jserror + db" where
  "saveUser d u =
     (if connected d
      then Inr (d\<lparr>userColl := replaceById user_id u (userColl d)\<rparr>)
      else Inl storeError)"

text \<open>\<^verbatim>\<open>save()\<close> of a new document inserts it; the store rejects a duplicate id.\<close>

definition insertPost :: "db \<Rightarrow> post \<Rightarrow> jserror + db" where
  "insertPost d p =
     (if connected d \<and> post_id p \<notin> set (map post_id (postColl d))
      then Inr (d\<lparr>postColl := postColl d @ [p]\<rparr>)
      else Inl storeError)"

text \<open>
  Modelled from the spec: the user schema (\<^verbatim>\<open>models/user\<close>) is not among the sources.
  The spec has the email unique, "enforced at write time", so an insert with an email
  already stored is rejected like a duplicate id.
\<close>

definition insertUser :: "db \<Rightarrow> user \<Rightarrow> jserror + db" where
  "insertUser d u =
     (if connected d \<and> user_id u \<notin> set (map user_id (userColl d))
         \<and> email u \<notin> set (map email (userColl d))
      then Inr (d\<lparr>userColl := userColl d @ [u]\<rparr>)
      else Inl storeError)"

text \<open>\<^verbatim>\<open>findByIdAndRemove\<close> casts the id and deletes the one document with that id.\<close>

fun removeFirst :: "('a \<Rightarrow> bool) \<Rightarrow> 'a list \<Rightarrow> 'a list" where
  "removeFirst P [] = []"
| "removeFirst P (x # xs) = (if P x then xs else x # removeFirst P xs)"

definition removePostById :: "db \<Rightarrow> string \<Rightarrow> jserror + db" where
  "removePostById d i =
     (case castObjectId i of
        None \<Rightarrow> Inl (castError i)
      | Some j \<Rightarrow>
          if connected d
          then Inr (d\<lparr>postColl := removeFirst (\<lambda>p. post_id p = j) (postColl d)\<rparr>)
          else Inl storeError)"

text \<open>
  Modelled from the spec: the schemas' defaults (\<^verbatim>\<open>models/post\<close>, \<^verbatim>\<open>models/user\<close>) are
  not among the sources. A new post is pending (allowed is false); a new user has role
  USER and no posts.
\<close>

definition newPost :: "oid \<Rightarrow> string \<Rightarrow> string \<Rightarrow> oid \<Rightarrow> post" where
  "newPost i t c a = \<lparr>post_id = i, title = t, content = c, author = a, allowed = False\<rparr>"

definition newUser :: "oid \<Rightarrow> string \<Rightarrow> string \<Rightarrow> string \<Rightarrow> string \<Rightarrow> user" where
  "newUser i e pw f l =
     \<lparr>user_id = i, email = e, password = pw, firstName = f, lastName = l,
      role = USER, posts = []\<rparr>"

section \<open>User directory (controllers/user)\<close>

text \<open>
  \<^verbatim>\<open>User.find()\<close> resolves to an array, and an array, empty or not, is truthy:
  \<^verbatim>\<open>!users\<close> is false for every result of the query.
\<close>

definition falsyArray :: "'a list \<Rightarrow> bool" where
  "falsyArray xs = False"

definition getUsers_try :: "db \<Rightarrow> (jserror + nat \<times> payload) \<times> db" where
  "getUsers_try d =
     (case findAllUsers d of
        Inl err \<Rightarrow> (Inl err, d)
      | Inr users \<Rightarrow>
          if falsyArray users then (Inl (mkError 404 ''Could not find any users.''), d)
          else (Inr (200, UsersPayload ''Fetched users successfully!'' users), d))"

definition getUsers :: "db \<Rightarrow> outcome \<times> db" where
  "getUsers d = tryCatch (getUsers_try d)"

definition getUser_try :: "db \<Rightarrow> oid \<Rightarrow> (jserror + nat \<times> payload) \<times> db" where
  "getUser_try d userId =
     (case findUserById d (Some userId) of
        Inl err \<Rightarrow> (Inl err, d)
      | Inr None \<Rightarrow> (Inl (mkError 404 ''Could not find a user.''), d)
      | Inr (Some u) \<Rightarrow> (Inr (200, UserPayload ''User fetched'' u), d))"

text \<open>
  The \<^verbatim>\<open>catch\<close> blocks of \<^verbatim>\<open>getUser\<close> and \<^verbatim>\<open>getPost\<close> also replace the message, with one
  that ends in the requested id, of an error that has no status code.
\<close>

definition catchBlockNaming :: "string \<Rightarrow> oid \<Rightarrow> jserror \<Rightarrow> jserror" where
  "catchBlockNaming pre i err =
     (if falsyStatus (statusCode err)
      then err\<lparr>statusCode := Some 500, message := pre @ i\<rparr>
      else err)"

definition tryCatchNaming ::
  "string \<Rightarrow> oid \<Rightarrow> (jserror + nat \<times> payload) \<times> db \<Rightarrow> outcome \<times> db" where
  "tryCatchNaming pre i r =
     (case fst r of
        Inl err \<Rightarrow> (Next (catchBlockNaming pre i err), snd r)
      | Inr (s, b) \<Rightarrow> (Json s b, snd r))"

definition getUser :: "db \<Rightarrow> oid \<Rightarrow> outcome \<times> db" where
  "getUser d userId = tryCatchNaming ''Could not find user with id: '' userId (getUser_try d userId)"

section \<open>Feed (controllers/feed)\<close>

definition getPost_try :: "db \<Rightarrow> oid \<Rightarrow> (jserror + nat \<times> payload) \<times> db" where
  "getPost_try d postId =
     (case findPostById d postId of
        Inl err \<Rightarrow> (Inl err, d)
      | Inr None \<Rightarrow> (Inl (mkError 404 ''Could not find post.''), d)
      | Inr (Some p) \<Rightarrow> (Inr (200, PostPayload ''Post fetched'' p), d))"

definition getPost :: "db \<Rightarrow> oid \<Rightarrow> outcome \<times> db" where
  "getPost d postId = tryCatchNaming ''Could not find post with id: '' postId (getPost_try d postId)"

text \<open>
  \<^verbatim>\<open>req.query.page || 1\<close>: an absent (or empty) query parameter gives page 1; a present one
  is a non-empty string, hence truthy even when it reads 0.
\<close>

definition pageOr1 :: "int option \<Rightarrow> int" where
  "pageOr1 page = (case page of None \<Rightarrow> 1 | Some n \<Rightarrow> n)"

text \<open>
  The two store calls every listing branch makes with one filter:
  \<^verbatim>\<open>find(f).skip((currentPage - 1) * perPage).limit(perPage)\<close>, then \<^verbatim>\<open>countDocuments(f)\<close>.
\<close>

definition queryPage :: "db \<Rightarrow> (post \<Rightarrow> bool) \<Rightarrow> int \<Rightarrow> nat \<Rightarrow> jserror + post list \<times> nat" where
  "queryPage d flt currentPage perPage =
     (case findPosts d flt ((currentPage - 1) * int perPage) perPage of
        Inl err \<Rightarrow> Inl err
      | Inr ps \<Rightarrow>
          (case countPosts d flt of
             Inl err \<Rightarrow> Inl err
           | Inr n \<Rightarrow> Inr (ps, n)))"

text \<open>\<^verbatim>\<open>!req.userId\<close>: no identity attached, or an empty one.\<close>

definition falsyId :: "oid option \<Rightarrow> bool" where
  "falsyId i = (i = None \<or> i = Some [])"

definition getPosts_try :: "db \<Rightarrow> oid option \<Rightarrow> int option \<Rightarrow> (jserror + nat \<times> payload) \<times> db" where
  "getPosts_try d userId page =
     (let currentPage = pageOr1 page; perPage = 4 in
      case findUserById d userId of
        Inl err \<Rightarrow> (Inl err, d)
      | Inr usr \<Rightarrow>
          (case
             (if falsyId userId then
                map_sum id Some (queryPage d (\<lambda>p. allowed p = True) currentPage perPage)
              else
                (case usr of
                   None \<Rightarrow> Inl typeError
                 | Some u \<Rightarrow>
                     if role u = USER then
                       map_sum id Some (queryPage d (\<lambda>p. allowed p = True) currentPage perPage)
                     else if role u = BLOGGER then
                       map_sum id Some
                         (queryPage d (\<lambda>p. Some (author p) = Option.bind userId castObjectId)
                            currentPage perPage)
                     else if role u = ADMIN then
                       map_sum id Some (queryPage d (\<lambda>p. True) currentPage perPage)
                     else Inr None))
           of
             Inl err \<Rightarrow> (Inl err, d)
           | Inr None \<Rightarrow> (Inl (mkError 404 ''Could not find any posts.''), d)
           | Inr (Some (ps, totalItems)) \<Rightarrow>
               if falsyArray ps \<or> length ps = 0
               then (Inl (mkError 404 ''Could not find any posts.''), d)
               else (Inr (200, PostsPayload ''Fetched posts successfully!'' ps totalItems), d)))"

definition getPosts :: "db \<Rightarrow> oid option \<Rightarrow> int option \<Rightarrow> outcome \<times> db" where
  "getPosts d userId page = tryCatch (getPosts_try d userId page)"

definition getPostRequests_try :: "db \<Rightarrow> oid \<Rightarrow> int option \<Rightarrow> (jserror + nat \<times> payload) \<times> db" where
  "getPostRequests_try d userId page =
     (let currentPage = pageOr1 page; perPage = 4 in
      case findUserById d (Some userId) of
        Inl err \<Rightarrow> (Inl err, d)
      | Inr None \<Rightarrow> (Inl typeError, d)
      | Inr (Some u) \<Rightarrow>
          if \<not> (role u = ADMIN) then (Inl (mkError 401 ''Not authorized.''), d)
          else
            (case queryPage d (\<lambda>p. allowed p = False) currentPage perPage of
               Inl err \<Rightarrow> (Inl err, d)
             | Inr (ps, totalItems) \<Rightarrow>
                 if falsyArray ps \<or> length ps = 0
                 then (Inl (mkError 404 ''Could not find any posts.''), d)
                 else (Inr (200, PostsPayload ''Fetched posts successfully!'' ps totalItems), d)))"

definition getPostRequests :: "db \<Rightarrow> oid \<Rightarrow> int option \<Rightarrow> outcome \<times> db" where
  "getPostRequests d userId page = tryCatch (getPostRequests_try d userId page)"

text \<open>
  \<^verbatim>\<open>allowPostRequest\<close> loads the post and the viewer first, and reads the viewer's role
  before it touches the post: a missing viewer is a read on \<^verbatim>\<open>null\<close>, and so is a missing
  post once the viewer has passed as ADMIN. The post is saved before the author is loaded.
\<close>

definition allowPostRequest_try :: "db \<Rightarrow> oid \<Rightarrow> oid \<Rightarrow> (jserror + nat \<times> payload) \<times> db" where
  "allowPostRequest_try d userId postId =
     (case findPostById d postId of
        Inl err \<Rightarrow> (Inl err, d)
      | Inr post \<Rightarrow>
     (case findUserById d (Some userId) of
        Inl err \<Rightarrow> (Inl err, d)
      | Inr None \<Rightarrow> (Inl typeError, d)
      | Inr (Some u) \<Rightarrow>
          if \<not> (role u = ADMIN) then (Inl (mkError 401 ''Not authorized.''), d)
          else
            (case post of
               None \<Rightarrow> (Inl typeError, d)
             | Some p0 \<Rightarrow>
                 let p = p0\<lparr>allowed := True\<rparr> in
                 (case savePost d p of
                    Inl err \<Rightarrow> (Inl err, d)
                  | Inr d1 \<Rightarrow>
                 (case findUserByObjectId d1 (author p) of
                    Inl err \<Rightarrow> (Inl err, d1)
                  | Inr None \<Rightarrow> (Inl typeError, d1)
                  | Inr (Some postAuthor) \<Rightarrow>
                      if \<not> (role postAuthor = ADMIN) then
                        (case saveUser d1 (postAuthor\<lparr>role := BLOGGER\<rparr>) of
                           Inl err \<Rightarrow> (Inl err, d1)
                         | Inr d2 \<Rightarrow>
                             (Inr (200, PostPayload ''Post request allowed successfully!'' p), d2))
                      else (Inr (200, PostPayload ''Post request allowed successfully!'' p), d1))))))"

definition allowPostRequest :: "db \<Rightarrow> oid \<Rightarrow> oid \<Rightarrow> outcome \<times> db" where
  "allowPostRequest d userId postId = tryCatch (allowPostRequest_try d userId postId)"

subsection \<open>Validation chains of the routes\<close>

text \<open>
  \<^verbatim>\<open>body(f).trim().isLength({ min: 5 })\<close>: the sanitizer strips white space at both ends and
  writes the result back to the request body; the validator then measures it. White space
  is what \<^verbatim>\<open>\s\<close> matches; of the code units up to 255 these are the tab, the line feed,
  the vertical tab, the form feed, the carriage return, the space and the no-break space.
\<close>

definition isSpace :: "char \<Rightarrow> bool" where
  "isSpace ch =
     (ch \<in> set [CHR '' '', CHR 0x09, CHR 0x0A, CHR 0x0B, CHR 0x0C, CHR 0x0D, CHR 0xA0])"

definition trim :: "string \<Rightarrow> string" where
  "trim s = rev (dropWhile isSpace (rev (dropWhile isSpace s)))"

definition validatePostBody :: "string \<Rightarrow> string \<Rightarrow> string \<times> string \<times> string list" where
  "validatePostBody t c =
     (let t' = trim t; c' = trim c in
      (t', c',
       (if 5 \<le> length t' then [] else [''title'']) @
       (if 5 \<le> length c' then [] else [''content''])))"

definition validationFailed :: jserror where
  "validationFailed = mkError 422 ''Validation failed, entered data is incorrect.''"

subsection \<open>Writing handlers\<close>

text \<open>
  \<^verbatim>\<open>createPost\<close>: \<^verbatim>\<open>errors\<close> is \<^verbatim>\<open>validationResult(req)\<close>, \<^verbatim>\<open>newId\<close> the id the driver
  generates for \<^verbatim>\<open>new Post(...)\<close>. The validation error is thrown before the \<^verbatim>\<open>try\<close>.
  The caller's id is cast when the document is built, and a failed cast makes \<^verbatim>\<open>save()\<close>
  reject.
\<close>

definition createPost_try ::
  "db \<Rightarrow> oid \<Rightarrow> oid \<Rightarrow> string \<Rightarrow> string \<Rightarrow> (jserror + nat \<times> payload) \<times> db" where
  "createPost_try d userId newId t c =
     (case castObjectId userId of
        None \<Rightarrow> (Inl (castError userId), d)
      | Some a \<Rightarrow>
     (let p = newPost newId t c a in
      case insertPost d p of
        Inl err \<Rightarrow> (Inl err, d)
      | Inr d1 \<Rightarrow>
     (case findUserById d1 (Some userId) of
        Inl err \<Rightarrow> (Inl err, d1)
      | Inr None \<Rightarrow> (Inl typeError, d1)
      | Inr (Some u0) \<Rightarrow>
          let u = u0\<lparr>posts := posts u0 @ [post_id p]\<rparr> in
          (case saveUser d1 u of
             Inl err \<Rightarrow> (Inl err, d1)
           | Inr d2 \<Rightarrow>
               (Inr (201, CreatedPayload ''Post created successfully!'' p (user_id u)
                            (firstName u @ '' '' @ lastName u)), d2)))))"

definition createPost ::
  "db \<Rightarrow> string list \<Rightarrow> oid \<Rightarrow> oid \<Rightarrow> string \<Rightarrow> string \<Rightarrow> outcome \<times> db" where
  "createPost d errors userId newId t c =
     (if errors \<noteq> [] then (Threw validationFailed, d)
      else tryCatch (createPost_try d userId newId t c))"

definition updatePost_try ::
  "db \<Rightarrow> oid \<Rightarrow> oid \<Rightarrow> string \<Rightarrow> string \<Rightarrow> (jserror + nat \<times> payload) \<times> db" where
  "updatePost_try d userId postId t c =
     (case findPostById d postId of
        Inl err \<Rightarrow> (Inl err, d)
      | Inr None \<Rightarrow> (Inl (mkError 404 ''Could not find post for update.''), d)
      | Inr (Some p0) \<Rightarrow>
          if author p0 \<noteq> userId then (Inl (mkError 403 ''Not authenticated.''), d)
          else
            let p = p0\<lparr>title := t, content := c, allowed := True\<rparr> in
            (case savePost d p of
               Inl err \<Rightarrow> (Inl err, d)
             | Inr d1 \<Rightarrow> (Inr (200, PostPayload ''Post updated!'' p), d1)))"

definition updatePost ::
  "db \<Rightarrow> string list \<Rightarrow> oid \<Rightarrow> oid \<Rightarrow> string \<Rightarrow> string \<Rightarrow> outcome \<times> db" where
  "updatePost d errors userId postId t c =
     (if errors \<noteq> [] then (Threw validationFailed, d)
      else tryCatch (updatePost_try d userId postId t c))"

definition deletePost_try :: "db \<Rightarrow> oid \<Rightarrow> oid \<Rightarrow> (jserror + nat \<times> payload) \<times> db" where
  "deletePost_try d userId postId =
     (case findPostById d postId of
        Inl err \<Rightarrow> (Inl err, d)
      | Inr None \<Rightarrow> (Inl (mkError 404 ''Could not find post to delete.''), d)
      | Inr (Some p) \<Rightarrow>
          if author p \<noteq> userId then (Inl (mkError 403 ''Not authenticated.''), d)
          else
            (case removePostById d postId of
               Inl err \<Rightarrow> (Inl err, d)
             | Inr d1 \<Rightarrow>
            (case findUserById d1 (Some userId) of
               Inl err \<Rightarrow> (Inl err, d1)
             | Inr None \<Rightarrow> (Inl typeError, d1)
             | Inr (Some u0) \<Rightarrow>
                 (case castObjectId postId of
                    None \<Rightarrow> (Inl (castError postId), d1)
                  | Some j \<Rightarrow>
                      let u = u0\<lparr>posts := removeAll j (posts u0)\<rparr> in
                      (case saveUser d1 u of
                         Inl err \<Rightarrow> (Inl err, d1)
                       | Inr d2 \<Rightarrow> (Inr (200, PostPayload ''Post deleted!'' p), d2))))))"

definition deletePost :: "db \<Rightarrow> oid \<Rightarrow> oid \<Rightarrow> outcome \<times> db" where
  "deletePost d userId postId = tryCatch (deletePost_try d userId postId)"

text \<open>The routes of the two validated handlers: the chain runs, then the controller.\<close>

definition route_createPost :: "db \<Rightarrow> oid \<Rightarrow> oid \<Rightarrow> string \<Rightarrow> string \<Rightarrow> outcome \<times> db" where
  "route_createPost d userId newId t c =
     (case validatePostBody t c of (t', c', errors) \<Rightarrow> createPost d errors userId newId t' c')"

definition route_updatePost :: "db \<Rightarrow> oid \<Rightarrow> oid \<Rightarrow> string \<Rightarrow> string \<Rightarrow> outcome \<times> db" where
  "route_updatePost d userId postId t c =
     (case validatePostBody t c of (t', c', errors) \<Rightarrow> updatePost d errors userId postId t' c')"

section \<open>Authentication (controllers/auth, routes/auth)\<close>

text \<open>
  The library functions the auth code calls, taken as parameters: the email validator
  and sanitizer of the validation chain, the password hash and its comparison, and the
  token signer.
\<close>

record lib =
  isEmail :: "string \<Rightarrow> bool"
  normalizeEmail :: "string \<Rightarrow> string"
  bcryptHash :: "string \<Rightarrow> string"
  bcryptCompare :: "string \<Rightarrow> string \<Rightarrow> bool"
  jwtSign :: "string \<Rightarrow> oid \<Rightarrow> string"

text \<open>
  The chain of \<^verbatim>\<open>PUT /register\<close>: \<^verbatim>\<open>isEmail\<close>, then the custom validator, which looks the
  value up in the store as it stands at that point of the chain and fails when a user has
  it (or when the lookup rejects), then \<^verbatim>\<open>normalizeEmail\<close>; the password is trimmed and
  measured.
\<close>

definition validateRegister :: "lib \<Rightarrow> db \<Rightarrow> string \<Rightarrow> string \<Rightarrow> string \<times> string \<times> string list" where
  "validateRegister L d em pw =
     (let pw' = trim pw in
      (normalizeEmail L em, pw',
       (if isEmail L em then [] else [''Please enter a valid email.'']) @
       (case findUserByEmail d em of
          Inl err \<Rightarrow> [message err]
        | Inr (Some userDocument) \<Rightarrow> [''E-Mail address already exists'']
        | Inr None \<Rightarrow> []) @
       (if 5 \<le> length pw' then [] else [''Invalid value''])))"

definition register_try ::
  "lib \<Rightarrow> db \<Rightarrow> oid \<Rightarrow> string \<Rightarrow> string \<Rightarrow> string \<Rightarrow> string \<Rightarrow> (jserror + nat \<times> payload) \<times> db" where
  "register_try L d newId em pw fn ln =
     (let hashedPw = bcryptHash L pw;
          u = newUser newId em hashedPw fn ln in
      case insertUser d u of
        Inl err \<Rightarrow> (Inl err, d)
      | Inr d1 \<Rightarrow> (Inr (201, RegisteredPayload ''A user was created.'' (user_id u)), d1))"

definition register ::
  "lib \<Rightarrow> db \<Rightarrow> string list \<Rightarrow> oid \<Rightarrow> string \<Rightarrow> string \<Rightarrow> string \<Rightarrow> string \<Rightarrow> outcome \<times> db" where
  "register L d errors newId em pw fn ln =
     (if errors \<noteq> []
      then (Threw \<lparr>statusCode = Some 422, message = ''Validation failed.'', errdata = Some errors\<rparr>, d)
      else tryCatch (register_try L d newId em pw fn ln))"

definition route_register ::
  "lib \<Rightarrow> db \<Rightarrow> oid \<Rightarrow> string \<Rightarrow> string \<Rightarrow> string \<Rightarrow> string \<Rightarrow> outcome \<times> db" where
  "route_register L d newId em pw fn ln =
     (case validateRegister L d em pw of
        (em', pw', errors) \<Rightarrow> register L d errors newId em' pw' fn ln)"

definition login_try :: "lib \<Rightarrow> db \<Rightarrow> string \<Rightarrow> string \<Rightarrow> (jserror + nat \<times> payload) \<times> db" where
  "login_try L d em pw =
     (case findUserByEmail d em of
        Inl err \<Rightarrow> (Inl err, d)
      | Inr None \<Rightarrow> (Inl (mkError 401 ''A user with this email could not be found''), d)
      | Inr (Some u) \<Rightarrow>
          if \<not> bcryptCompare L pw (password u) then (Inl (mkError 401 ''Wrong password''), d)
          else (Inr (200, TokenPayload (jwtSign L (email u) (user_id u)) (user_id u)), d))"

definition login :: "lib \<Rightarrow> db \<Rightarrow> string \<Rightarrow> string \<Rightarrow> outcome \<times> db" where
  "login L d em pw = tryCatch (login_try L d em pw)"

section \<open>The operations of the API as one step function\<close>

text \<open>
  One constructor per route, with the identity the access middleware attached, the route
  and body parameters, and for the two inserting routes the id generated for the new
  document.
\<close>

datatype operation =
    GetPosts "oid option" "int option"
  | GetPostRequests oid "int option"
  | AllowPostRequest oid oid
  | GetPost oid
  | CreatePost oid oid string string
  | UpdatePost oid oid string string
  | DeletePost oid oid
  | GetUsers
  | GetUser oid
  | Register oid string string string string
  | Login string string

fun exec :: "lib \<Rightarrow> db \<Rightarrow> operation \<Rightarrow> outcome \<times> db" where
  "exec L d (GetPosts userId page) = getPosts d userId page"
| "exec L d (GetPostRequests userId page) = getPostRequests d userId page"
| "exec L d (AllowPostRequest userId postId) = allowPostRequest d userId postId"
| "exec L d (GetPost postId) = getPost d postId"
| "exec L d (CreatePost userId newId t c) = route_createPost d userId newId t c"
| "exec L d (UpdatePost userId postId t c) = route_updatePost d userId postId t c"
| "exec L d (DeletePost userId postId) = deletePost d userId postId"
| "exec L d GetUsers = getUsers d"
| "exec L d (GetUser userId) = getUser d userId"
| "exec L d (Register newId em pw fn ln) = route_register L d newId em pw fn ln"
| "exec L d (Login em pw) = login L d em pw"

section \<open>Auxiliary notions\<close>

text \<open>The document stored under an object id.\<close>

definition postOf :: "db \<Rightarrow> oid \<Rightarrow> post option" where
  "postOf d i = find (\<lambda>p. post_id p = i) (postColl d)"

definition userOf :: "db \<Rightarrow> oid \<Rightarrow> user option" where
  "userOf d i = find (\<lambda>u. user_id u = i) (userColl d)"

text \<open>
  A string from a route or a token is well formed when it casts to an object id; the
  document it denotes is the one stored under that object id.
\<close>

definition wellFormedId :: "string \<Rightarrow> bool" where
  "wellFormedId s = (castObjectId s \<noteq> None)"

definition postAt :: "db \<Rightarrow> string \<Rightarrow> post option" where
  "postAt d s = Option.bind (castObjectId s) (postOf d)"

definition userAt :: "db \<Rightarrow> string \<Rightarrow> user option" where
  "userAt d s = Option.bind (castObjectId s) (userOf d)"

text \<open>The hex form of an object id: 24 hex digits.\<close>

definition hexId :: "string \<Rightarrow> bool" where
  "hexId s = (length s = 24 \<and> list_all isHexDigit s)"

text \<open>The store keeps document ids unique within a collection.\<close>

definition uniqueIds :: "db \<Rightarrow> bool" where
  "uniqueIds d = (distinct (map post_id (postColl d)) \<and> distinct (map user_id (userColl d)))"

text \<open>A message names an id when the id occurs in it.\<close>

definition namesId :: "string \<Rightarrow> oid \<Rightarrow> bool" where
  "namesId msg i = sublist i msg"

text \<open>
  The listing as the specification words it. A viewer is anonymous (no role) or has the
  role of its user document: anonymous viewers and role USER see published posts only,
  a BLOGGER sees the posts it authored in any state, an ADMIN sees all posts. Pages hold
  four posts and are numbered from 1.
\<close>

definition visibleTo :: "role option \<Rightarrow> oid option \<Rightarrow> post \<Rightarrow> bool" where
  "visibleTo r viewer p =
     (case r of
        None \<Rightarrow> allowed p
      | Some USER \<Rightarrow> allowed p
      | Some BLOGGER \<Rightarrow> Some (author p) = viewer
      | Some ADMIN \<Rightarrow> True)"

definition specPage :: "nat \<Rightarrow> 'a list \<Rightarrow> 'a list" where
  "specPage n xs = take 4 (drop (4 * (n - 1)) xs)"

text \<open>The ids of the posts a listing response carries.\<close>

fun listedIds :: "outcome \<Rightarrow> oid list option" where
  "listedIds (Json s (PostsPayload m ps n)) = Some (map post_id ps)"
| "listedIds out = None"

section \<open>An example store\<close>

text \<open>
  Three users, one of each role, and six posts: Alice (USER) has a pending post, Bob
  (BLOGGER) has three posts, two of them published, and Root (ADMIN) has two.
\<close>

definition uidA :: oid where "uidA = ''64b7a1f0c2d3e4f5a6b7c801''"
definition uidB :: oid where "uidB = ''64b7a1f0c2d3e4f5a6b7c802''"
definition uidR :: oid where "uidR = ''64b7a1f0c2d3e4f5a6b7c803''"

definition pid1 :: oid where "pid1 = ''64c1e2f3a4b5c6d7e8f90001''"
definition pid2 :: oid where "pid2 = ''64c1e2f3a4b5c6d7e8f90002''"
definition pid3 :: oid where "pid3 = ''64c1e2f3a4b5c6d7e8f90003''"
definition pid4 :: oid where "pid4 = ''64c1e2f3a4b5c6d7e8f90004''"
definition pid5 :: oid where "pid5 = ''64c1e2f3a4b5c6d7e8f90005''"
definition pid6 :: oid where "pid6 = ''64c1e2f3a4b5c6d7e8f90006''"
definition pidNew :: oid where "pidNew = ''64c1e2f3a4b5c6d7e8f90007''"
definition pidNone :: oid where "pidNone = ''64c1e2f3a4b5c6d7e8f90009''"

definition alice :: user where
  "alice = \<lparr>user_id = uidA, email = ''alice@x.com'', password = ''h1'', firstName = ''Alice'',
            lastName = ''Ames'', role = USER, posts = [pid1]\<rparr>"

definition bob :: user where
  "bob = \<lparr>user_id = uidB, email = ''bob@x.com'', password = ''h2'', firstName = ''Bob'',
          lastName = ''Bell'', role = BLOGGER, posts = [pid2, pid3, pid5]\<rparr>"

definition root :: user where
  "root = \<lparr>user_id = uidR, email = ''root@x.com'', password = ''h3'', firstName = ''Root'',
           lastName = ''Rowe'', role = ADMIN, posts = [pid4, pid6]\<rparr>"

definition post1 :: post where
  "post1 = \<lparr>post_id = pid1, title = ''First post'', content = ''Hello world'', author = uidA,
            allowed = False\<rparr>"

definition post2 :: post where
  "post2 = \<lparr>post_id = pid2, title = ''Second post'', content = ''More words'', author = uidB,
            allowed = True\<rparr>"

definition post3 :: post where
  "post3 = \<lparr>post_id = pid3, title = ''Third post'', content = ''Even more'', author = uidB,
            allowed = True\<rparr>"

definition post4 :: post where
  "post4 = \<lparr>post_id = pid4, title = ''Fourth post'', content = ''From root'', author = uidR,
            allowed = True\<rparr>"

definition post5 :: post where
  "post5 = \<lparr>post_id = pid5, title = ''Fifth post'', content = ''Pending one'', author = uidB,
            allowed = False\<rparr>"

definition post6 :: post where
  "post6 = \<lparr>post_id = pid6, title = ''Sixth post'', content = ''Root again'', author = uidR,
            allowed = True\<rparr>"

definition examplePosts :: "post list" where
  "examplePosts = [post1, post2, post3, post4, post5, post6]"

definition exampleDb :: db where
  "exampleDb = \<lparr>postColl = examplePosts, userColl = [alice, bob, root], connected = True\<rparr>"

definition emptyDb :: db where
  "emptyDb = \<lparr>postColl = [], userColl = [], connected = True\<rparr>"

text \<open>
  Concrete stand-ins for the library functions, used only to run examples. On an address
  of an ordinary domain the email sanitizer lower-cases the whole address.
\<close>

definition lowerLetter :: "char \<Rightarrow> char" where
  "lowerLetter ch =
     (case map_of (zip ''ABCDEFGHIJKLMNOPQRSTUVWXYZ'' ''abcdefghijklmnopqrstuvwxyz'') ch of
        None \<Rightarrow> ch
      | Some l \<Rightarrow> l)"

definition exampleLib :: lib where
  "exampleLib =
     \<lparr>isEmail = (\<lambda>s. CHR ''@'' \<in> set s),
      normalizeEmail = map lowerLetter,
      bcryptHash = (\<lambda>s. ''#'' @ s),
      bcryptCompare = (\<lambda>s h. h = ''#'' @ s),
      jwtSign = (\<lambda>e i. e @ '':'' @ i)\<rparr>"

section \<open>Shared facts about the store and the validation chain\<close>

lemma find_replaceById:
  "find (\<lambda>q. f q = i) xs = Some p \<Longrightarrow> f p' = i \<Longrightarrow>
   find (\<lambda>q. f q = i) (replaceById f p' xs) = Some p'"
  unfolding replaceById_def by (induction xs) (auto split: if_splits)

lemma find_replaceById_other:
  "f p' \<noteq> i \<Longrightarrow> find (\<lambda>q. f q = i) (replaceById f p' xs) = find (\<lambda>q. f q = i) xs"
  unfolding replaceById_def by (induction xs) auto

lemma replaceById_twice: "replaceById f x (replaceById f x xs) = replaceById f x xs"
  unfolding replaceById_def by (induction xs) auto

lemma find_key: "find (\<lambda>q. f q = i) xs = Some p \<Longrightarrow> f p = i"
  by (induction xs) (auto split: if_splits)

lemma postOf_id: "postOf d i = Some p \<Longrightarrow> post_id p = i"
  unfolding postOf_def by (rule find_key)

lemma userOf_id: "userOf d i = Some u \<Longrightarrow> user_id u = i"
  unfolding userOf_def by (rule find_key)

lemma validatePostBody_bad:
  "length (trim t) < 5 \<or> length (trim c) < 5 \<Longrightarrow>
   \<exists>t' c' errors. validatePostBody t c = (t', c', errors) \<and> errors \<noteq> []"
  by (auto simp: validatePostBody_def Let_def)

lemma validatePostBody_good:
  "5 \<le> length (trim t) \<Longrightarrow> 5 \<le> length (trim c) \<Longrightarrow>
   validatePostBody t c = (trim t, trim c, [])"
  by (simp add: validatePostBody_def Let_def)

text \<open>The lookups of the handlers, in terms of the document a string denotes.\<close>

lemma findPostById_cast:
  "castObjectId s = Some j \<Longrightarrow> connected d \<Longrightarrow> findPostById d s = Inr (postOf d j)"
  by (simp add: findPostById_def postOf_def)

lemma findUserById_cast:
  "castObjectId s = Some j \<Longrightarrow> connected d \<Longrightarrow> findUserById d (Some s) = Inr (userOf d j)"
  by (simp add: findUserById_def userOf_def)

lemma findUserByObjectId_eq:
  "connected d \<Longrightarrow> findUserByObjectId d j = Inr (userOf d j)"
  by (simp add: findUserByObjectId_def userOf_def)

lemma postAt_cast: "castObjectId s = Some j \<Longrightarrow> postAt d s = postOf d j"
  by (simp add: postAt_def)

lemma userAt_cast: "castObjectId s = Some j \<Longrightarrow> userAt d s = userOf d j"
  by (simp add: userAt_def)

lemma wellFormedId_cast: "wellFormedId s \<Longrightarrow> \<exists>j. castObjectId s = Some j"
  by (simp add: wellFormedId_def)

lemma hexId_wellFormed: "hexId s \<Longrightarrow> castObjectId s = Some (map lowerHex s)"
  by (simp add: hexId_def castObjectId_def)

section \<open>Lookups in the example store\<close>

lemma example_casts:
  "castObjectId uidA = Some uidA" "castObjectId uidB = Some uidB"
  "castObjectId uidR = Some uidR"
  "castObjectId pid1 = Some pid1" "castObjectId pid3 = Some pid3"
  "castObjectId pid4 = Some pid4" "castObjectId pidNone = Some pidNone"
  "castObjectId ''64C1E2F3A4B5C6D7E8F90001'' = Some pid1"
  "castObjectId ''abc'' = None"
  by (simp_all add: castObjectId_def isHexDigit_def lowerHex_def
      uidA_def uidB_def uidR_def pid1_def pid3_def pid4_def pidNone_def)

lemma example_ids_differ:
  "uidA \<noteq> uidB" "uidA \<noteq> uidR" "uidB \<noteq> uidR" "uidB \<noteq> uidA" "uidR \<noteq> uidA" "uidR \<noteq> uidB"
  "distinct [pid1, pid2, pid3, pid4, pid5, pid6, pidNew, pidNone]"
  by (simp_all add: uidA_def uidB_def uidR_def pid1_def pid2_def pid3_def pid4_def pid5_def
      pid6_def pidNew_def pidNone_def)

lemma exampleDb_fields:
  "connected exampleDb" "postColl exampleDb = examplePosts" "userColl exampleDb = [alice, bob, root]"
  by (simp_all add: exampleDb_def)

lemma example_roles:
  "role alice = USER" "role bob = BLOGGER" "role root = ADMIN"
  "user_id alice = uidA" "user_id bob = uidB" "user_id root = uidR"
  by (simp_all add: alice_def bob_def root_def)

lemma exampleDb_users:
  "userOf exampleDb uidA = Some alice"
  "userOf exampleDb uidB = Some bob"
  "userOf exampleDb uidR = Some root"
  by (simp_all add: userOf_def exampleDb_fields example_roles example_ids_differ)

lemma example_post_fields:
  "post_id post1 = pid1" "post_id post2 = pid2" "post_id post3 = pid3"
  "post_id post4 = pid4" "post_id post5 = pid5" "post_id post6 = pid6"
  "author post1 = uidA" "author post2 = uidB" "author post3 = uidB"
  "author post4 = uidR" "author post5 = uidB" "author post6 = uidR"
  "allowed post1 = False" "allowed post2 = True" "allowed post3 = True"
  "allowed post4 = True" "allowed post5 = False" "allowed post6 = True"
  by (simp_all add: post1_def post2_def post3_def post4_def post5_def post6_def)

lemma exampleDb_posts:
  "postOf exampleDb pid1 = Some post1"
  "postOf exampleDb pid3 = Some post3"
  "postOf exampleDb pid4 = Some post4"
  "postOf exampleDb pidNone = None"
  "postOf exampleDb pidNew = None"
  using example_ids_differ(7)
  by (simp_all add: postOf_def exampleDb_fields examplePosts_def example_post_fields)

lemma exampleDb_uniqueIds: "distinct (map post_id (postColl exampleDb))"
  using example_ids_differ(7)
  by (simp add: exampleDb_fields examplePosts_def example_post_fields)

lemma exampleDb_no_user: "userOf exampleDb pidNone = None"
  by (simp add: userOf_def exampleDb_fields example_roles uidA_def uidB_def uidR_def pidNone_def)

lemma exampleDb_at:
  "postAt exampleDb pidNone = None" "userAt exampleDb pidNone = None"
  "postAt exampleDb pid1 = Some post1" "postAt exampleDb pid3 = Some post3"
  "postAt exampleDb pid4 = Some post4"
  "postAt exampleDb ''64C1E2F3A4B5C6D7E8F90001'' = Some post1"
  "userAt exampleDb uidA = Some alice" "userAt exampleDb uidB = Some bob"
  "userAt exampleDb uidR = Some root"
  by (simp_all add: postAt_def userAt_def example_casts exampleDb_posts exampleDb_users
      exampleDb_no_user)

lemma example_wellFormed:
  "wellFormedId uidA" "wellFormedId uidB" "wellFormedId uidR"
  "wellFormedId pid1" "wellFormedId pid3" "wellFormedId pid4" "wellFormedId pidNone"
  "wellFormedId ''64C1E2F3A4B5C6D7E8F90001''" "\<not> wellFormedId ''abc''"
  by (simp_all add: wellFormedId_def example_casts)
section \<open>Lookups that find nothing: getPost, getUser\<close>

text \<open>
  C8, as stated: when \<^verbatim>\<open>getPost\<close> or \<^verbatim>\<open>getUser\<close> finds no document, the 404 error's
  message names the requested id. It does not: asked for a well-formed id on an empty
  store, both handlers forward a 404 whose fixed message does not contain the id.
\<close>

theorem notFound_names_id_counterexample:
  "getPost \<lparr>postColl = [], userColl = [], connected = True\<rparr> ''64b5f0a1c2d3e4f5a6b7c8d9''
     = (Next (mkError 404 ''Could not find post.''),
        \<lparr>postColl = [], userColl = [], connected = True\<rparr>)
   \<and> \<not> namesId ''Could not find post.'' ''64b5f0a1c2d3e4f5a6b7c8d9''
   \<and> getUser \<lparr>postColl = [], userColl = [], connected = True\<rparr> ''64b5f0a1c2d3e4f5a6b7c8d9''
     = (Next (mkError 404 ''Could not find a user.''),
        \<lparr>postColl = [], userColl = [], connected = True\<rparr>)
   \<and> \<not> namesId ''Could not find a user.'' ''64b5f0a1c2d3e4f5a6b7c8d9''"
  by (simp add: getPost_def getPost_try_def getUser_def getUser_try_def tryCatchNaming_def
        catchBlockNaming_def falsyStatus_def findPostById_def findUserById_def mkError_def
        castObjectId_def isHexDigit_def
        namesId_def sublist_code(3) prefix_code(2))

lemma hexId_not_named:
  "hexId i \<Longrightarrow> length msg < 24 \<Longrightarrow> \<not> namesId msg i"
  using sublist_length_le [of i msg] by (auto simp: hexId_def namesId_def)

lemma getPost_cases:
  "castObjectId i = Some j \<Longrightarrow> connected d \<Longrightarrow>
   getPost d i =
     (case postOf d j of
        None \<Rightarrow> (Next (mkError 404 ''Could not find post.''), d)
      | Some p \<Rightarrow> (Json 200 (PostPayload ''Post fetched'' p), d))"
  by (simp add: getPost_def getPost_try_def findPostById_cast tryCatchNaming_def
      catchBlockNaming_def falsyStatus_def mkError_def split: option.splits)

lemma getUser_cases:
  "castObjectId i = Some j \<Longrightarrow> connected d \<Longrightarrow>
   getUser d i =
     (case userOf d j of
        None \<Rightarrow> (Next (mkError 404 ''Could not find a user.''), d)
      | Some u \<Rightarrow> (Json 200 (UserPayload ''User fetched'' u), d))"
  by (simp add: getUser_def getUser_try_def findUserById_cast tryCatchNaming_def
      catchBlockNaming_def falsyStatus_def mkError_def split: option.splits)

lemma getPost_getUser_500:
  "castObjectId i = None \<or> \<not> connected d \<Longrightarrow>
   getPost d i =
     (Next \<lparr>statusCode = Some 500, message = ''Could not find post with id: '' @ i,
            errdata = None\<rparr>, d) \<and>
   getUser d i =
     (Next \<lparr>statusCode = Some 500, message = ''Could not find user with id: '' @ i,
            errdata = None\<rparr>, d)"
  by (auto simp: getPost_def getPost_try_def getUser_def getUser_try_def tryCatchNaming_def
      catchBlockNaming_def falsyStatus_def findPostById_def findUserById_def storeError_def
      castError_def split: option.splits)

text \<open>
  C8, amended: when the store answers, the requested id is well formed and no document is
  stored under it, \<^verbatim>\<open>getPost\<close> fails with 404 and the fixed message "Could not find post.",
  \<^verbatim>\<open>getUser\<close> with 404 and "Could not find a user."; the store is left as it was, and for
  an id in its 24-digit hex form neither message names the requested id. The message that
  ends in the requested id, and so names it, belongs to a failure without a status code
  (a malformed id, whose cast fails, or a store that does not answer): it is forwarded as
  500, and nothing else is. A document that is found is returned with 200.
\<close>

theorem notFound_fixed_message:
  "(connected d \<and> wellFormedId i \<and> postAt d i = None \<longrightarrow>
      getPost d i = (Next (mkError 404 ''Could not find post.''), d)) \<and>
   (connected d \<and> wellFormedId i \<and> userAt d i = None \<longrightarrow>
      getUser d i = (Next (mkError 404 ''Could not find a user.''), d)) \<and>
   (hexId i \<longrightarrow>
      \<not> namesId ''Could not find post.'' i \<and> \<not> namesId ''Could not find a user.'' i) \<and>
   (\<not> wellFormedId i \<or> \<not> connected d \<longrightarrow>
      getPost d i =
        (Next \<lparr>statusCode = Some 500, message = ''Could not find post with id: '' @ i,
               errdata = None\<rparr>, d) \<and>
      getUser d i =
        (Next \<lparr>statusCode = Some 500, message = ''Could not find user with id: '' @ i,
               errdata = None\<rparr>, d) \<and>
      namesId (''Could not find post with id: '' @ i) i \<and>
      namesId (''Could not find user with id: '' @ i) i) \<and>
   (\<forall>p. connected d \<and> postAt d i = Some p \<longrightarrow>
      getPost d i = (Json 200 (PostPayload ''Post fetched'' p), d)) \<and>
   (\<forall>u. connected d \<and> userAt d i = Some u \<longrightarrow>
      getUser d i = (Json 200 (UserPayload ''User fetched'' u), d))"
proof (intro conjI impI allI)
  assume h: "connected d \<and> wellFormedId i \<and> postAt d i = None"
  then obtain j where j: "castObjectId i = Some j" using wellFormedId_cast by blast
  with h show "getPost d i = (Next (mkError 404 ''Could not find post.''), d)"
    by (simp add: getPost_cases postAt_cast)
next
  assume h: "connected d \<and> wellFormedId i \<and> userAt d i = None"
  then obtain j where j: "castObjectId i = Some j" using wellFormedId_cast by blast
  with h show "getUser d i = (Next (mkError 404 ''Could not find a user.''), d)"
    by (simp add: getUser_cases userAt_cast)
next
  assume "hexId i"
  then show "\<not> namesId ''Could not find post.'' i" by (rule hexId_not_named) simp
next
  assume "hexId i"
  then show "\<not> namesId ''Could not find a user.'' i" by (rule hexId_not_named) simp
next
  assume "\<not> wellFormedId i \<or> \<not> connected d"
  then have c: "castObjectId i = None \<or> \<not> connected d" by (simp add: wellFormedId_def)
  from getPost_getUser_500 [OF c]
  show "getPost d i =
        (Next \<lparr>statusCode = Some 500, message = ''Could not find post with id: '' @ i,
               errdata = None\<rparr>, d)"
    and "getUser d i =
        (Next \<lparr>statusCode = Some 500, message = ''Could not find user with id: '' @ i,
               errdata = None\<rparr>, d)"
    by simp_all
  show "namesId (''Could not find post with id: '' @ i) i"
    unfolding namesId_def by (rule sublist_append_leftI)
  show "namesId (''Could not find user with id: '' @ i) i"
    unfolding namesId_def by (rule sublist_append_leftI)
next
  fix p
  assume h: "connected d \<and> postAt d i = Some p"
  then obtain j where "castObjectId i = Some j"
    by (cases "castObjectId i") (simp_all add: postAt_def)
  with h show "getPost d i = (Json 200 (PostPayload ''Post fetched'' p), d)"
    by (simp add: getPost_cases postAt_cast)
next
  fix u
  assume h: "connected d \<and> userAt d i = Some u"
  then obtain j where "castObjectId i = Some j"
    by (cases "castObjectId i") (simp_all add: userAt_def)
  with h show "getUser d i = (Json 200 (UserPayload ''User fetched'' u), d)"
    by (simp add: getUser_cases userAt_cast)
qed

theorem notFound_fixed_message_witness:
  "connected exampleDb \<and> wellFormedId pidNone \<and> hexId pidNone
   \<and> postAt exampleDb pidNone = None \<and> userAt exampleDb pidNone = None
   \<and> getPost exampleDb pidNone = (Next (mkError 404 ''Could not find post.''), exampleDb)
   \<and> getUser exampleDb pidNone = (Next (mkError 404 ''Could not find a user.''), exampleDb)
   \<and> \<not> namesId ''Could not find post.'' pidNone
   \<and> \<not> wellFormedId ''abc''
   \<and> getPost exampleDb ''abc''
       = (Next \<lparr>statusCode = Some 500, message = ''Could not find post with id: abc'',
                errdata = None\<rparr>, exampleDb)
   \<and> getUser exampleDb ''abc''
       = (Next \<lparr>statusCode = Some 500, message = ''Could not find user with id: abc'',
                errdata = None\<rparr>, exampleDb)
   \<and> getPost exampleDb ''64C1E2F3A4B5C6D7E8F90001''
       = (Json 200 (PostPayload ''Post fetched'' post1), exampleDb)"
proof -
  have hex: "hexId pidNone"
    by (simp add: hexId_def pidNone_def isHexDigit_def)
  show ?thesis
    using notFound_fixed_message [of exampleDb pidNone]
      notFound_fixed_message [of exampleDb "''abc''"]
      notFound_fixed_message [of exampleDb "''64C1E2F3A4B5C6D7E8F90001''"]
      hex example_wellFormed exampleDb_at exampleDb_fields(1)
    by simp
qed

section \<open>Listing users: getUsers\<close>

text \<open>
  C9, as stated: \<^verbatim>\<open>getUsers\<close> fails with 404 when the store is unreachable. It does not:
  the rejected store call carries no status code, and the \<^verbatim>\<open>catch\<close> block forwards it
  as 500.
\<close>

theorem getUsers_unreachable_counterexample:
  "failStatus (fst (getUsers \<lparr>postColl = [], userColl = [], connected = False\<rparr>)) = Some 500
   \<and> failStatus (fst (getUsers \<lparr>postColl = [], userColl = [], connected = False\<rparr>)) \<noteq> Some 404"
  by (simp add: getUsers_def getUsers_try_def findAllUsers_def tryCatch_def catchBlock_def
        falsyStatus_def storeError_def)

text \<open>
  C9, amended: when the store answers and holds at least one user, \<^verbatim>\<open>getUsers\<close> responds
  200 with all users of the store, in the store's order; when the store is unreachable it
  fails with 500. The store is left as it was.
\<close>

theorem getUsers_all_or_500:
  "(connected d \<and> userColl d \<noteq> [] \<longrightarrow>
      getUsers d = (Json 200 (UsersPayload ''Fetched users successfully!'' (userColl d)), d)) \<and>
   (\<not> connected d \<longrightarrow>
      failStatus (fst (getUsers d)) = Some 500 \<and> snd (getUsers d) = d)"
  by (simp add: getUsers_def getUsers_try_def findAllUsers_def tryCatch_def catchBlock_def
        falsyStatus_def storeError_def falsyArray_def)

theorem getUsers_all_or_500_witness:
  "getUsers \<lparr>postColl = [],
             userColl = [newUser ''u1'' ''a@x.com'' ''h'' ''A'' ''B''],
             connected = True\<rparr>
     = (Json 200 (UsersPayload ''Fetched users successfully!''
                    [newUser ''u1'' ''a@x.com'' ''h'' ''A'' ''B'']),
        \<lparr>postColl = [],
         userColl = [newUser ''u1'' ''a@x.com'' ''h'' ''A'' ''B''],
         connected = True\<rparr>)
   \<and> failStatus (fst (getUsers \<lparr>postColl = [], userColl = [], connected = False\<rparr>)) = Some 500"
  using getUsers_all_or_500 [of "\<lparr>postColl = [],
             userColl = [newUser ''u1'' ''a@x.com'' ''h'' ''A'' ''B''],
             connected = True\<rparr>"]
    getUsers_all_or_500 [of "\<lparr>postColl = [], userColl = [], connected = False\<rparr>"]
  by simp

text \<open>
  The 404 branch of \<^verbatim>\<open>getUsers\<close> is guarded by \<^verbatim>\<open>!users\<close> alone, where \<^verbatim>\<open>getPosts\<close> also
  tests the length: on a store that answers with no users the handler responds 200 with
  the empty list.
\<close>

lemma getUsers_empty_store:
  "getUsers \<lparr>postColl = ps, userColl = [], connected = True\<rparr>
     = (Json 200 (UsersPayload ''Fetched users successfully!'' []),
        \<lparr>postColl = ps, userColl = [], connected = True\<rparr>)"
  by (simp add: getUsers_def getUsers_try_def findAllUsers_def tryCatch_def falsyArray_def)

section \<open>Validation comes first: createPost, updatePost\<close>

text \<open>
  C10: a request to create or update a post whose title or content trims to fewer than
  five characters fails with the 422 validation error, whatever the store holds (the
  target post absent, the caller not its author, the store unreachable), and the store is
  left as it was.
\<close>

theorem validation_first:
  "length (trim t) < 5 \<or> length (trim c) < 5 \<Longrightarrow>
     route_updatePost d userId postId t c = (Threw validationFailed, d)
   \<and> route_createPost d userId newId t c = (Threw validationFailed, d)
   \<and> statusCode validationFailed = Some 422"
  using validatePostBody_bad [of t c]
  by (auto simp: route_updatePost_def route_createPost_def updatePost_def createPost_def
        validationFailed_def mkError_def)

theorem validation_first_witness:
  "length (trim ''  Hi  '') < 5
   \<and> postAt exampleDb pidNone = None
   \<and> route_updatePost exampleDb uidB pidNone ''  Hi  '' ''Hello world''
       = (Threw validationFailed, exampleDb)
   \<and> route_createPost exampleDb uidB pidNew ''  Hi  '' ''Hello world''
       = (Threw validationFailed, exampleDb)
   \<and> statusCode validationFailed = Some 422"
  using validation_first [of "''  Hi  ''" "''Hello world''" exampleDb uidB pidNone pidNew]
  by (simp add: trim_def isSpace_def exampleDb_at)

section \<open>Editing a post: updatePost\<close>

lemma updatePost_valid:
  "5 \<le> length (trim t) \<Longrightarrow> 5 \<le> length (trim c) \<Longrightarrow>
   route_updatePost d editorId postId t c
     = tryCatch (updatePost_try d editorId postId (trim t) (trim c))"
  by (simp add: route_updatePost_def validatePostBody_good updatePost_def)

lemma updatePost_try_absent:
  "connected d \<Longrightarrow> castObjectId postId = Some j \<Longrightarrow> postOf d j = None \<Longrightarrow>
   tryCatch (updatePost_try d editorId postId t c)
     = (Next (mkError 404 ''Could not find post for update.''), d)"
  by (simp add: updatePost_try_def findPostById_cast tryCatch_def catchBlock_def
        falsyStatus_def mkError_def)

lemma updatePost_try_stranger:
  "connected d \<Longrightarrow> castObjectId postId = Some j \<Longrightarrow> postOf d j = Some p \<Longrightarrow>
   author p \<noteq> editorId \<Longrightarrow>
   tryCatch (updatePost_try d editorId postId t c)
     = (Next (mkError 403 ''Not authenticated.''), d)"
  by (simp add: updatePost_try_def findPostById_cast tryCatch_def catchBlock_def
        falsyStatus_def mkError_def)

lemma updatePost_try_author:
  "connected d \<Longrightarrow> castObjectId postId = Some j \<Longrightarrow> postOf d j = Some p \<Longrightarrow>
   author p = editorId \<Longrightarrow>
   tryCatch (updatePost_try d editorId postId t c)
     = (Json 200 (PostPayload ''Post updated!'' (p\<lparr>title := t, content := c, allowed := True\<rparr>)),
        d\<lparr>postColl := replaceById post_id (p\<lparr>title := t, content := c, allowed := True\<rparr>)
                           (postColl d)\<rparr>)"
  by (simp add: updatePost_try_def findPostById_cast tryCatch_def savePost_def Let_def)

text \<open>
  An id that does not cast makes the lookup reject, which is forwarded as 500: the post
  id of the route must be well formed for the 404 to be reached.
\<close>

lemma updatePost_malformed_id:
  "5 \<le> length (trim t) \<Longrightarrow> 5 \<le> length (trim c) \<Longrightarrow> \<not> wellFormedId postId \<Longrightarrow>
   failStatus (fst (route_updatePost d editorId postId t c)) = Some 500 \<and>
   snd (route_updatePost d editorId postId t c) = d"
  by (simp add: updatePost_valid updatePost_try_def findPostById_def wellFormedId_def
      tryCatch_def catchBlock_def falsyStatus_def castError_def)

text \<open>
  C5: \<^verbatim>\<open>updatePost\<close> fails with 422 when the title or the content trims to fewer than five
  characters; otherwise, on a store that answers and for a well-formed post id, with 404
  when no post has the id, with 403 when the editor is not the post's author, and for the
  author it responds 200 and stores the post with the (trimmed) title and content and
  with allowed set to true, whatever allowed was; the users are untouched.
\<close>

theorem updatePost_spec:
  "(length (trim t) < 5 \<or> length (trim c) < 5 \<longrightarrow>
      route_updatePost d editorId postId t c = (Threw validationFailed, d)) \<and>
   (5 \<le> length (trim t) \<and> 5 \<le> length (trim c) \<and> connected d \<and> wellFormedId postId \<longrightarrow>
      (postAt d postId = None \<longrightarrow>
         route_updatePost d editorId postId t c
           = (Next (mkError 404 ''Could not find post for update.''), d)) \<and>
      (\<forall>p. postAt d postId = Some p \<and> author p \<noteq> editorId \<longrightarrow>
         route_updatePost d editorId postId t c = (Next (mkError 403 ''Not authenticated.''), d)) \<and>
      (\<forall>p. postAt d postId = Some p \<and> author p = editorId \<longrightarrow>
         fst (route_updatePost d editorId postId t c)
           = Json 200 (PostPayload ''Post updated!''
                         (p\<lparr>title := trim t, content := trim c, allowed := True\<rparr>)) \<and>
         postAt (snd (route_updatePost d editorId postId t c)) postId
           = Some (p\<lparr>title := trim t, content := trim c, allowed := True\<rparr>) \<and>
         userColl (snd (route_updatePost d editorId postId t c)) = userColl d))"
proof -
  have bad: "length (trim t) < 5 \<or> length (trim c) < 5 \<Longrightarrow>
      route_updatePost d editorId postId t c = (Threw validationFailed, d)"
    using validatePostBody_bad [of t c]
    by (auto simp: route_updatePost_def updatePost_def)
  have rest: "(postAt d postId = None \<longrightarrow>
         route_updatePost d editorId postId t c
           = (Next (mkError 404 ''Could not find post for update.''), d)) \<and>
      (\<forall>p. postAt d postId = Some p \<and> author p \<noteq> editorId \<longrightarrow>
         route_updatePost d editorId postId t c = (Next (mkError 403 ''Not authenticated.''), d)) \<and>
      (\<forall>p. postAt d postId = Some p \<and> author p = editorId \<longrightarrow>
         fst (route_updatePost d editorId postId t c)
           = Json 200 (PostPayload ''Post updated!''
                         (p\<lparr>title := trim t, content := trim c, allowed := True\<rparr>)) \<and>
         postAt (snd (route_updatePost d editorId postId t c)) postId
           = Some (p\<lparr>title := trim t, content := trim c, allowed := True\<rparr>) \<and>
         userColl (snd (route_updatePost d editorId postId t c)) = userColl d)"
    if v: "5 \<le> length (trim t)" "5 \<le> length (trim c)" and c: "connected d"
      and w: "wellFormedId postId"
  proof -
    from w obtain j where j: "castObjectId postId = Some j" using wellFormedId_cast by blast
    have saved: "postOf (d\<lparr>postColl := replaceById post_id
                    (p\<lparr>title := trim t, content := trim c, allowed := True\<rparr>) (postColl d)\<rparr>) j
           = Some (p\<lparr>title := trim t, content := trim c, allowed := True\<rparr>)"
      if "postOf d j = Some p" for p
      using that find_replaceById [of post_id j "postColl d" p
          "p\<lparr>title := trim t, content := trim c, allowed := True\<rparr>"] postOf_id [OF that]
      by (simp add: postOf_def)
    show ?thesis
      using v c j saved
      by (simp add: updatePost_valid postAt_cast updatePost_try_absent updatePost_try_stranger
          updatePost_try_author)
  qed
  show ?thesis using bad rest by blast
qed

theorem updatePost_spec_witness:
  "route_updatePost exampleDb uidA pid1 ''Hi'' ''Hello world''
     = (Threw validationFailed, exampleDb)
   \<and> route_updatePost exampleDb uidA pidNone ''Hello'' ''World!''
     = (Next (mkError 404 ''Could not find post for update.''), exampleDb)
   \<and> route_updatePost exampleDb uidB pid1 ''Hello'' ''World!''
     = (Next (mkError 403 ''Not authenticated.''), exampleDb)
   \<and> postAt exampleDb pid1 = Some post1 \<and> allowed post1 = False
   \<and> postAt (snd (route_updatePost exampleDb uidA pid1 ([CHR 0xA0, CHR '' ''] @ ''Hello '') ''World!'')) pid1
     = Some (post1\<lparr>title := ''Hello'', content := ''World!'', allowed := True\<rparr>)"
  using updatePost_spec [of "''Hi''" "''Hello world''" exampleDb uidA pid1]
    updatePost_spec [of "''Hello''" "''World!''" exampleDb uidA pidNone]
    updatePost_spec [of "''Hello''" "''World!''" exampleDb uidB pid1]
    updatePost_spec [of "[CHR 0xA0, CHR '' ''] @ ''Hello ''" "''World!''" exampleDb uidA pid1]
    example_ids_differ
  by (simp add: trim_def isSpace_def exampleDb_at exampleDb_fields example_wellFormed
      example_post_fields)

section \<open>Approval: allowPostRequest\<close>

lemma allowPostRequest_malformed_post:
  "castObjectId postId = None \<Longrightarrow>
   failStatus (fst (allowPostRequest d viewerId postId)) = Some 500 \<and>
   snd (allowPostRequest d viewerId postId) = d"
  by (simp add: allowPostRequest_def allowPostRequest_try_def tryCatch_def findPostById_def
      catchBlock_def falsyStatus_def castError_def)

lemma allowPostRequest_unreachable:
  "\<not> connected d \<Longrightarrow> snd (allowPostRequest d viewerId postId) = d"
  by (simp add: allowPostRequest_def allowPostRequest_try_def tryCatch_def findPostById_def
      split: option.splits)

lemma allowPostRequest_malformed_viewer:
  "castObjectId viewerId = None \<Longrightarrow> snd (allowPostRequest d viewerId postId) = d"
  by (simp add: allowPostRequest_def allowPostRequest_try_def tryCatch_def findPostById_def
      findUserById_def split: option.splits)

lemma allowPostRequest_no_viewer:
  "connected d \<Longrightarrow> castObjectId viewerId = Some k \<Longrightarrow> userOf d k = None \<Longrightarrow>
   snd (allowPostRequest d viewerId postId) = d"
  by (simp add: allowPostRequest_def allowPostRequest_try_def tryCatch_def findPostById_def
      findUserById_cast split: option.splits)

lemma allowPostRequest_not_admin:
  "connected d \<Longrightarrow> castObjectId postId = Some j \<Longrightarrow> castObjectId viewerId = Some k \<Longrightarrow>
   userOf d k = Some u \<Longrightarrow> role u \<noteq> ADMIN \<Longrightarrow>
   allowPostRequest d viewerId postId = (Next (mkError 401 ''Not authorized.''), d)"
  by (simp add: allowPostRequest_def allowPostRequest_try_def tryCatch_def findPostById_cast
      findUserById_cast catchBlock_def falsyStatus_def mkError_def)

lemma allowPostRequest_no_post:
  "connected d \<Longrightarrow> castObjectId postId = Some j \<Longrightarrow> castObjectId viewerId = Some k \<Longrightarrow>
   userOf d k = Some u \<Longrightarrow> role u = ADMIN \<Longrightarrow> postOf d j = None \<Longrightarrow>
   snd (allowPostRequest d viewerId postId) = d"
  by (simp add: allowPostRequest_def allowPostRequest_try_def tryCatch_def findPostById_cast
      findUserById_cast)

lemma allowPostRequest_no_author:
  "connected d \<Longrightarrow> castObjectId postId = Some j \<Longrightarrow> castObjectId viewerId = Some k \<Longrightarrow>
   userOf d k = Some u \<Longrightarrow> role u = ADMIN \<Longrightarrow> postOf d j = Some p \<Longrightarrow>
   userOf d (author p) = None \<Longrightarrow>
   snd (allowPostRequest d viewerId postId)
     = d\<lparr>postColl := replaceById post_id (p\<lparr>allowed := True\<rparr>) (postColl d)\<rparr>"
  by (simp add: allowPostRequest_def allowPostRequest_try_def tryCatch_def findPostById_cast
      findUserById_cast findUserByObjectId_def userOf_def savePost_def Let_def)

lemma allowPostRequest_author_admin:
  "connected d \<Longrightarrow> castObjectId postId = Some j \<Longrightarrow> castObjectId viewerId = Some k \<Longrightarrow>
   userOf d k = Some u \<Longrightarrow> role u = ADMIN \<Longrightarrow> postOf d j = Some p \<Longrightarrow>
   userOf d (author p) = Some a \<Longrightarrow> role a = ADMIN \<Longrightarrow>
   allowPostRequest d viewerId postId
     = (Json 200 (PostPayload ''Post request allowed successfully!'' (p\<lparr>allowed := True\<rparr>)),
        d\<lparr>postColl := replaceById post_id (p\<lparr>allowed := True\<rparr>) (postColl d)\<rparr>)"
  by (simp add: allowPostRequest_def allowPostRequest_try_def tryCatch_def findPostById_cast
      findUserById_cast findUserByObjectId_def userOf_def savePost_def Let_def)

lemma allowPostRequest_promote:
  "connected d \<Longrightarrow> castObjectId postId = Some j \<Longrightarrow> castObjectId viewerId = Some k \<Longrightarrow>
   userOf d k = Some u \<Longrightarrow> role u = ADMIN \<Longrightarrow> postOf d j = Some p \<Longrightarrow>
   userOf d (author p) = Some a \<Longrightarrow> role a \<noteq> ADMIN \<Longrightarrow>
   allowPostRequest d viewerId postId
     = (Json 200 (PostPayload ''Post request allowed successfully!'' (p\<lparr>allowed := True\<rparr>)),
        d\<lparr>postColl := replaceById post_id (p\<lparr>allowed := True\<rparr>) (postColl d),
          userColl := replaceById user_id (a\<lparr>role := BLOGGER\<rparr>) (userColl d)\<rparr>)"
  by (simp add: allowPostRequest_def allowPostRequest_try_def tryCatch_def findPostById_cast
      findUserById_cast findUserByObjectId_def userOf_def savePost_def saveUser_def Let_def)

lemma postOf_saved:
  "postOf d i = Some p \<Longrightarrow>
   find (\<lambda>q. post_id q = i) (replaceById post_id (p\<lparr>allowed := True\<rparr>) (postColl d))
     = Some (p\<lparr>allowed := True\<rparr>)"
  using find_replaceById [of post_id i "postColl d" p "p\<lparr>allowed := True\<rparr>"] postOf_id [of d i p]
  by (simp add: postOf_def)

lemma userOf_saved:
  "userOf d i = Some a \<Longrightarrow>
   find (\<lambda>v. user_id v = i) (replaceById user_id (a\<lparr>role := r\<rparr>) (userColl d))
     = Some (a\<lparr>role := r\<rparr>)"
  using find_replaceById [of user_id i "userColl d" a "a\<lparr>role := r\<rparr>"] userOf_id [of d i a]
  by (simp add: userOf_def)

lemma userAt_Some: "userAt d s = Some u \<Longrightarrow> \<exists>k. castObjectId s = Some k \<and> userOf d k = Some u"
  by (cases "castObjectId s") (simp_all add: userAt_def)

lemma postAt_Some: "postAt d s = Some p \<Longrightarrow> \<exists>j. castObjectId s = Some j \<and> postOf d j = Some p"
  by (cases "castObjectId s") (simp_all add: postAt_def)

text \<open>
  C2: on a store that answers and for a well-formed post id, \<^verbatim>\<open>allowPostRequest\<close> fails
  with 401 for a viewer whose role is not ADMIN, leaving the store as it was. For an ADMIN
  viewer, an existing post and an existing author it responds 200; afterwards the store
  holds the post with allowed set to true and nothing else changed in the posts, and it
  holds the author with role BLOGGER when the author's role was not ADMIN, and the users
  unchanged otherwise.
\<close>

theorem allowPostRequest_spec:
  "connected d \<Longrightarrow> wellFormedId postId \<Longrightarrow>
   (\<forall>u. userAt d viewerId = Some u \<and> role u \<noteq> ADMIN \<longrightarrow>
      allowPostRequest d viewerId postId = (Next (mkError 401 ''Not authorized.''), d)) \<and>
   (\<forall>u p a. userAt d viewerId = Some u \<and> role u = ADMIN \<and> postAt d postId = Some p \<and>
        userOf d (author p) = Some a \<longrightarrow>
      fst (allowPostRequest d viewerId postId)
        = Json 200 (PostPayload ''Post request allowed successfully!'' (p\<lparr>allowed := True\<rparr>)) \<and>
      postColl (snd (allowPostRequest d viewerId postId))
        = replaceById post_id (p\<lparr>allowed := True\<rparr>) (postColl d) \<and>
      postAt (snd (allowPostRequest d viewerId postId)) postId = Some (p\<lparr>allowed := True\<rparr>) \<and>
      (role a \<noteq> ADMIN \<longrightarrow>
         userColl (snd (allowPostRequest d viewerId postId))
           = replaceById user_id (a\<lparr>role := BLOGGER\<rparr>) (userColl d) \<and>
         userOf (snd (allowPostRequest d viewerId postId)) (author p)
           = Some (a\<lparr>role := BLOGGER\<rparr>)) \<and>
      (role a = ADMIN \<longrightarrow>
         userColl (snd (allowPostRequest d viewerId postId)) = userColl d))"
proof -
  assume c: "connected d" and w: "wellFormedId postId"
  from w obtain j where j: "castObjectId postId = Some j" using wellFormedId_cast by blast
  have denied: "allowPostRequest d viewerId postId = (Next (mkError 401 ''Not authorized.''), d)"
    if "userAt d viewerId = Some u \<and> role u \<noteq> ADMIN" for u
  proof -
    from that obtain k where "castObjectId viewerId = Some k" "userOf d k = Some u"
      using userAt_Some by blast
    with that c j show ?thesis by (simp add: allowPostRequest_not_admin)
  qed
  have granted: "fst (allowPostRequest d viewerId postId)
        = Json 200 (PostPayload ''Post request allowed successfully!'' (p\<lparr>allowed := True\<rparr>)) \<and>
      postColl (snd (allowPostRequest d viewerId postId))
        = replaceById post_id (p\<lparr>allowed := True\<rparr>) (postColl d) \<and>
      postAt (snd (allowPostRequest d viewerId postId)) postId = Some (p\<lparr>allowed := True\<rparr>) \<and>
      (role a \<noteq> ADMIN \<longrightarrow>
         userColl (snd (allowPostRequest d viewerId postId))
           = replaceById user_id (a\<lparr>role := BLOGGER\<rparr>) (userColl d) \<and>
         userOf (snd (allowPostRequest d viewerId postId)) (author p)
           = Some (a\<lparr>role := BLOGGER\<rparr>)) \<and>
      (role a = ADMIN \<longrightarrow>
         userColl (snd (allowPostRequest d viewerId postId)) = userColl d)"
    if h: "userAt d viewerId = Some u \<and> role u = ADMIN \<and> postAt d postId = Some p \<and>
        userOf d (author p) = Some a" for u p a
  proof -
    from h obtain k where k: "castObjectId viewerId = Some k" "userOf d k = Some u"
      using userAt_Some by blast
    from h j have p: "postOf d j = Some p" by (simp add: postAt_cast)
    show ?thesis
    proof (cases "role a = ADMIN")
      case True
      with c j k h p postOf_saved [OF p] show ?thesis
        by (simp add: allowPostRequest_author_admin postAt_cast postOf_def)
    next
      case False
      with c j k h p postOf_saved [OF p] userOf_saved [of d "author p" a BLOGGER] show ?thesis
        by (simp add: allowPostRequest_promote postAt_cast postOf_def userOf_def)
    qed
  qed
  show ?thesis using denied granted by blast
qed

theorem allowPostRequest_spec_witness:
  "connected exampleDb \<and> wellFormedId pid1
   \<and> allowPostRequest exampleDb uidB pid1 = (Next (mkError 401 ''Not authorized.''), exampleDb)
   \<and> postAt (snd (allowPostRequest exampleDb uidR pid1)) pid1 = Some (post1\<lparr>allowed := True\<rparr>)
   \<and> userOf (snd (allowPostRequest exampleDb uidR pid1)) uidA = Some (alice\<lparr>role := BLOGGER\<rparr>)
   \<and> userColl (snd (allowPostRequest exampleDb uidR pid4)) = userColl exampleDb"
  using allowPostRequest_spec [of exampleDb pid1 uidB]
    allowPostRequest_spec [of exampleDb pid1 uidR]
    allowPostRequest_spec [of exampleDb pid4 uidR]
  by (simp add: exampleDb_fields(1) example_wellFormed exampleDb_at exampleDb_users
      example_roles example_post_fields)

text \<open>A post id that does not cast is rejected before the viewer's role is read.\<close>

lemma allowPostRequest_malformed_example:
  "failStatus (fst (allowPostRequest exampleDb uidB ''abc'')) = Some 500"
  by (simp add: allowPostRequest_malformed_post example_casts)

lemma allowPostRequest_twice:
  "snd (allowPostRequest (snd (allowPostRequest d viewerId postId)) viewerId postId)
     = snd (allowPostRequest d viewerId postId)"
proof (cases "connected d")
  case False
  then show ?thesis by (simp add: allowPostRequest_unreachable)
next
  case c: True
  show ?thesis
  proof (cases "castObjectId postId")
    case None
    then show ?thesis by (simp add: allowPostRequest_malformed_post)
  next
    case (Some j)
    note j = Some
    show ?thesis
    proof (cases "castObjectId viewerId")
      case None
      then show ?thesis by (simp add: allowPostRequest_malformed_viewer)
    next
      case (Some k)
      note k = Some
      show ?thesis
      proof (cases "userOf d k")
        case None
        with c k show ?thesis by (simp add: allowPostRequest_no_viewer)
      next
        case (Some u)
        note u = Some
        show ?thesis
        proof (cases "role u = ADMIN")
          case False
          with c j k u show ?thesis by (simp add: allowPostRequest_not_admin)
        next
          case adm: True
          show ?thesis
          proof (cases "postOf d j")
            case None
            with c j k u adm show ?thesis by (simp add: allowPostRequest_no_post)
          next
            case (Some p)
            note p = Some
            let ?p = "p\<lparr>allowed := True\<rparr>"
            let ?d1 = "d\<lparr>postColl := replaceById post_id ?p (postColl d)\<rparr>"
            have c1: "connected ?d1" using c by simp
            have u1: "userOf ?d1 k = Some u" using u by (simp add: userOf_def)
            have p1: "postOf ?d1 j = Some ?p"
              using postOf_saved [OF p] by (simp add: postOf_def)
            show ?thesis
            proof (cases "userOf d (author p)")
              case None
              then have a1: "userOf ?d1 (author ?p) = None" by (simp add: userOf_def)
              have "snd (allowPostRequest d viewerId postId) = ?d1"
                using c j k u adm p None by (simp add: allowPostRequest_no_author)
              moreover have "snd (allowPostRequest ?d1 viewerId postId) = ?d1"
                using allowPostRequest_no_author [OF c1 j k u1 adm p1 a1]
                by (simp add: replaceById_twice)
              ultimately show ?thesis by simp
            next
              case (Some a)
              note a = Some
              show ?thesis
              proof (cases "role a = ADMIN")
                case True
                have a1: "userOf ?d1 (author ?p) = Some a" using a by (simp add: userOf_def)
                have "snd (allowPostRequest d viewerId postId) = ?d1"
                  using c j k u adm p a True by (simp add: allowPostRequest_author_admin)
                moreover have "snd (allowPostRequest ?d1 viewerId postId) = ?d1"
                  using allowPostRequest_author_admin [OF c1 j k u1 adm p1 a1 True]
                  by (simp add: replaceById_twice)
                ultimately show ?thesis by simp
              next
                case False
                let ?a = "a\<lparr>role := BLOGGER\<rparr>"
                let ?d2 = "d\<lparr>postColl := replaceById post_id ?p (postColl d),
                              userColl := replaceById user_id ?a (userColl d)\<rparr>"
                have ne: "user_id ?a \<noteq> k"
                proof
                  assume "user_id ?a = k"
                  moreover have "user_id a = author p" using a by (rule userOf_id)
                  ultimately have "userOf d k = Some a" using a by simp
                  with u adm False show False by simp
                qed
                have c2: "connected ?d2" using c by simp
                have u2: "userOf ?d2 k = Some u"
                  using u ne find_replaceById_other [of user_id ?a k "userColl d"]
                  by (simp add: userOf_def)
                have p2: "postOf ?d2 j = Some ?p"
                  using postOf_saved [OF p] by (simp add: postOf_def)
                have a2: "userOf ?d2 (author ?p) = Some ?a"
                  using userOf_saved [OF a, of BLOGGER] by (simp add: userOf_def)
                have r2: "role ?a \<noteq> ADMIN" by simp
                have "snd (allowPostRequest d viewerId postId) = ?d2"
                  using c j k u adm p a False by (simp add: allowPostRequest_promote)
                moreover have "snd (allowPostRequest ?d2 viewerId postId) = ?d2"
                  using allowPostRequest_promote [OF c2 j k u2 adm p2 a2 r2]
                  by (simp add: replaceById_twice)
                ultimately show ?thesis by simp
              qed
            qed
          qed
        qed
      qed
    qed
  qed
qed

text \<open>
  C4: approving twice in succession leaves the post store and the user store exactly as
  approving once does, for every store, post id and viewer (an ADMIN viewer in
  particular). When the store answers, the viewer is an ADMIN and the post and its author
  exist, that final state holds the post with allowed set to true and the author with role
  ADMIN when it was ADMIN and BLOGGER otherwise.
\<close>

theorem approve_idempotent:
  "snd (allowPostRequest (snd (allowPostRequest d viewerId postId)) viewerId postId)
     = snd (allowPostRequest d viewerId postId)
   \<and> (\<forall>u p a. connected d \<and> userAt d viewerId = Some u \<and> role u = ADMIN \<and>
          postAt d postId = Some p \<and> userOf d (author p) = Some a \<longrightarrow>
        postAt (snd (allowPostRequest (snd (allowPostRequest d viewerId postId)) viewerId postId))
          postId = Some (p\<lparr>allowed := True\<rparr>) \<and>
        userOf (snd (allowPostRequest (snd (allowPostRequest d viewerId postId)) viewerId postId))
          (author p) = Some (a\<lparr>role := (if role a = ADMIN then ADMIN else BLOGGER)\<rparr>))"
proof (intro conjI allI impI)
  show twice: "snd (allowPostRequest (snd (allowPostRequest d viewerId postId)) viewerId postId)
     = snd (allowPostRequest d viewerId postId)"
    by (rule allowPostRequest_twice)
  fix u p a
  assume h: "connected d \<and> userAt d viewerId = Some u \<and> role u = ADMIN \<and>
          postAt d postId = Some p \<and> userOf d (author p) = Some a"
  then obtain k where k: "castObjectId viewerId = Some k" "userOf d k = Some u"
    using userAt_Some by blast
  from h obtain j where j: "castObjectId postId = Some j" "postOf d j = Some p"
    using postAt_Some by blast
  show "postAt (snd (allowPostRequest (snd (allowPostRequest d viewerId postId)) viewerId postId))
          postId = Some (p\<lparr>allowed := True\<rparr>)"
    unfolding twice
    using h j k postOf_saved [OF j(2)] by (cases "role a = ADMIN")
      (simp_all add: allowPostRequest_author_admin allowPostRequest_promote postAt_cast postOf_def)
  show "userOf (snd (allowPostRequest (snd (allowPostRequest d viewerId postId)) viewerId postId))
          (author p) = Some (a\<lparr>role := (if role a = ADMIN then ADMIN else BLOGGER)\<rparr>)"
    unfolding twice
    using h j k userOf_saved [of d "author p" a BLOGGER] by (cases "role a = ADMIN")
      (simp_all add: allowPostRequest_author_admin allowPostRequest_promote userOf_def)
qed

theorem approve_idempotent_witness:
  "snd (allowPostRequest (snd (allowPostRequest exampleDb uidR pid1)) uidR pid1)
     = snd (allowPostRequest exampleDb uidR pid1)
   \<and> postAt (snd (allowPostRequest (snd (allowPostRequest exampleDb uidR pid1)) uidR pid1)) pid1
       = Some (post1\<lparr>allowed := True\<rparr>)
   \<and> userOf (snd (allowPostRequest (snd (allowPostRequest exampleDb uidR pid1)) uidR pid1)) uidA
       = Some (alice\<lparr>role := BLOGGER\<rparr>)"
  using approve_idempotent [of exampleDb uidR pid1]
  by (auto simp add: exampleDb_fields(1) exampleDb_at exampleDb_users example_roles
      example_post_fields)

section \<open>Creating and deleting posts: the author's back-references\<close>

lemma find_append_fresh:
  "i \<notin> set (map f xs) \<Longrightarrow> f p = i \<Longrightarrow> find (\<lambda>q. f q = i) (xs @ [p]) = Some p"
  by (induction xs) auto

lemma find_removeFirst_distinct:
  "distinct (map f xs) \<Longrightarrow> find (\<lambda>q. f q = i) (removeFirst (\<lambda>q. f q = i) xs) = None"
proof (induction xs)
  case Nil
  then show ?case by simp
next
  case (Cons x xs)
  show ?case
  proof (cases "f x = i")
    case True
    with Cons.prems have "i \<notin> f ` set xs" by auto
    then have "find (\<lambda>q. f q = i) xs = None" by (auto simp: find_None_iff)
    with True show ?thesis by simp
  next
    case False
    with Cons show ?thesis by simp
  qed
qed

lemma find_removeFirst_other:
  "j \<noteq> i \<Longrightarrow> find (\<lambda>q. f q = j) (removeFirst (\<lambda>q. f q = i) xs) = find (\<lambda>q. f q = j) xs"
  by (induction xs) auto

lemma createPost_success:
  assumes "fst (createPost d errors userId newId t c) = Json s b"
  shows "\<exists>a u. errors = [] \<and> connected d \<and> castObjectId userId = Some a \<and>
           newId \<notin> set (map post_id (postColl d)) \<and>
           userOf d a = Some u \<and> s = 201 \<and>
           snd (createPost d errors userId newId t c)
             = d\<lparr>postColl := postColl d @ [newPost newId t c a],
                 userColl := replaceById user_id (u\<lparr>posts := posts u @ [newId]\<rparr>) (userColl d)\<rparr>"
  using assms
  by (auto simp: createPost_def createPost_try_def tryCatch_def insertPost_def findUserById_def
      saveUser_def userOf_def newPost_def Let_def
      split: if_splits sum.splits option.splits)

lemma deletePost_success:
  assumes "fst (deletePost d userId postId) = Json s b"
  shows "\<exists>j p k u. connected d \<and> castObjectId postId = Some j \<and> postOf d j = Some p \<and>
           author p = userId \<and> castObjectId userId = Some k \<and>
           userOf d k = Some u \<and> s = 200 \<and> b = PostPayload ''Post deleted!'' p \<and>
           snd (deletePost d userId postId)
             = d\<lparr>postColl := removeFirst (\<lambda>q. post_id q = j) (postColl d),
                 userColl := replaceById user_id (u\<lparr>posts := removeAll j (posts u)\<rparr>)
                               (userColl d)\<rparr>"
  using assms
  by (auto simp: deletePost_def deletePost_try_def tryCatch_def removePostById_def
      findPostById_def findUserById_def saveUser_def userOf_def postOf_def Let_def
      split: if_splits sum.splits option.splits)

text \<open>
  C6: when \<^verbatim>\<open>createPost\<close> succeeds, the post store is the old one with the new post
  appended, authored by the caller (under the caller's object id) and pending, and the
  caller's user document is stored with a reference to the new post appended to its list.
  When \<^verbatim>\<open>deletePost\<close> succeeds, the post was the caller's, it is removed from the post
  store (no post has its id any more, ids being unique), and the caller's user document
  is stored with every reference to the post removed from its list.
\<close>

theorem create_delete_back_reference:
  "(\<forall>s b. fst (route_createPost d userId newId t c) = Json s b \<longrightarrow>
      (\<exists>a u. castObjectId userId = Some a \<and> userOf d a = Some u \<and>
         postColl (snd (route_createPost d userId newId t c))
           = postColl d @ [\<lparr>post_id = newId, title = trim t, content = trim c,
                             author = a, allowed = False\<rparr>] \<and>
         postOf (snd (route_createPost d userId newId t c)) newId
           = Some \<lparr>post_id = newId, title = trim t, content = trim c,
                   author = a, allowed = False\<rparr> \<and>
         userColl (snd (route_createPost d userId newId t c))
           = replaceById user_id (u\<lparr>posts := posts u @ [newId]\<rparr>) (userColl d) \<and>
         userOf (snd (route_createPost d userId newId t c)) a
           = Some (u\<lparr>posts := posts u @ [newId]\<rparr>))) \<and>
   (\<forall>s b. fst (deletePost d userId postId) = Json s b \<longrightarrow>
      (\<exists>j p k u. castObjectId postId = Some j \<and> postOf d j = Some p \<and> author p = userId \<and>
         castObjectId userId = Some k \<and> userOf d k = Some u \<and>
         postColl (snd (deletePost d userId postId))
           = removeFirst (\<lambda>q. post_id q = j) (postColl d) \<and>
         (distinct (map post_id (postColl d)) \<longrightarrow>
            postOf (snd (deletePost d userId postId)) j = None) \<and>
         userColl (snd (deletePost d userId postId))
           = replaceById user_id (u\<lparr>posts := removeAll j (posts u)\<rparr>) (userColl d) \<and>
         userOf (snd (deletePost d userId postId)) k
           = Some (u\<lparr>posts := removeAll j (posts u)\<rparr>) \<and>
         j \<notin> set (removeAll j (posts u))))"
proof (intro conjI allI impI)
  fix s b
  assume ok: "fst (route_createPost d userId newId t c) = Json s b"
  obtain t' c' errors where v: "validatePostBody t c = (t', c', errors)"
    by (cases "validatePostBody t c") auto
  have r: "route_createPost d userId newId t c = createPost d errors userId newId t' c'"
    by (simp add: route_createPost_def v)
  from ok r createPost_success [of d errors userId newId t' c' s b]
  obtain a u where u: "errors = []" "newId \<notin> set (map post_id (postColl d))"
      "castObjectId userId = Some a" "userOf d a = Some u"
      "snd (createPost d errors userId newId t' c')
         = d\<lparr>postColl := postColl d @ [newPost newId t' c' a],
             userColl := replaceById user_id (u\<lparr>posts := posts u @ [newId]\<rparr>) (userColl d)\<rparr>"
    by auto
  from v u(1) have tc: "t' = trim t" "c' = trim c"
    by (auto simp: validatePostBody_def Let_def)
  note r = r [unfolded tc] and u5 = u(5) [unfolded tc]
  have "postOf (snd (route_createPost d userId newId t c)) newId
          = Some (newPost newId (trim t) (trim c) a)"
    using u(2) find_append_fresh [of newId post_id "postColl d" "newPost newId (trim t) (trim c) a"]
    by (simp add: r u5 postOf_def newPost_def)
  moreover have "userOf (snd (route_createPost d userId newId t c)) a
          = Some (u\<lparr>posts := posts u @ [newId]\<rparr>)"
    using u(4) find_replaceById [of user_id a "userColl d" u "u\<lparr>posts := posts u @ [newId]\<rparr>"]
      userOf_id [OF u(4)]
    by (simp add: r u5 userOf_def)
  ultimately show "\<exists>a u. castObjectId userId = Some a \<and> userOf d a = Some u \<and>
         postColl (snd (route_createPost d userId newId t c))
           = postColl d @ [\<lparr>post_id = newId, title = trim t, content = trim c,
                             author = a, allowed = False\<rparr>] \<and>
         postOf (snd (route_createPost d userId newId t c)) newId
           = Some \<lparr>post_id = newId, title = trim t, content = trim c,
                   author = a, allowed = False\<rparr> \<and>
         userColl (snd (route_createPost d userId newId t c))
           = replaceById user_id (u\<lparr>posts := posts u @ [newId]\<rparr>) (userColl d) \<and>
         userOf (snd (route_createPost d userId newId t c)) a
           = Some (u\<lparr>posts := posts u @ [newId]\<rparr>)"
    using u(3,4) by (simp add: r u5 newPost_def)
next
  fix s b
  assume ok: "fst (deletePost d userId postId) = Json s b"
  from deletePost_success [OF ok]
  obtain j p k u where pu: "castObjectId postId = Some j" "postOf d j = Some p"
      "author p = userId" "castObjectId userId = Some k" "userOf d k = Some u"
      "snd (deletePost d userId postId)
         = d\<lparr>postColl := removeFirst (\<lambda>q. post_id q = j) (postColl d),
             userColl := replaceById user_id (u\<lparr>posts := removeAll j (posts u)\<rparr>)
                           (userColl d)\<rparr>"
    by auto
  have "userOf (snd (deletePost d userId postId)) k
          = Some (u\<lparr>posts := removeAll j (posts u)\<rparr>)"
    using find_replaceById [of user_id k "userColl d" u
        "u\<lparr>posts := removeAll j (posts u)\<rparr>"] pu(5) userOf_id [OF pu(5)]
    by (simp add: pu(6) userOf_def)
  moreover have "distinct (map post_id (postColl d)) \<longrightarrow>
            postOf (snd (deletePost d userId postId)) j = None"
    by (simp add: pu(6) postOf_def find_removeFirst_distinct)
  ultimately show "\<exists>j p k u. castObjectId postId = Some j \<and> postOf d j = Some p \<and>
         author p = userId \<and> castObjectId userId = Some k \<and> userOf d k = Some u \<and>
         postColl (snd (deletePost d userId postId))
           = removeFirst (\<lambda>q. post_id q = j) (postColl d) \<and>
         (distinct (map post_id (postColl d)) \<longrightarrow>
            postOf (snd (deletePost d userId postId)) j = None) \<and>
         userColl (snd (deletePost d userId postId))
           = replaceById user_id (u\<lparr>posts := removeAll j (posts u)\<rparr>) (userColl d) \<and>
         userOf (snd (deletePost d userId postId)) k
           = Some (u\<lparr>posts := removeAll j (posts u)\<rparr>) \<and>
         j \<notin> set (removeAll j (posts u))"
    using pu(1-5) by (simp add: pu(6))
qed

theorem create_delete_back_reference_witness:
  "fst (route_createPost exampleDb uidA pidNew '' Hello '' ''World!'')
     = Json 201 (CreatedPayload ''Post created successfully!''
         \<lparr>post_id = pidNew, title = ''Hello'', content = ''World!'', author = uidA,
          allowed = False\<rparr> uidA ''Alice Ames'')
   \<and> postOf (snd (route_createPost exampleDb uidA pidNew '' Hello '' ''World!'')) pidNew
     = Some \<lparr>post_id = pidNew, title = ''Hello'', content = ''World!'', author = uidA,
             allowed = False\<rparr>
   \<and> userOf (snd (route_createPost exampleDb uidA pidNew '' Hello '' ''World!'')) uidA
     = Some (alice\<lparr>posts := [pid1, pidNew]\<rparr>)
   \<and> fst (deletePost exampleDb uidB pid3) = Json 200 (PostPayload ''Post deleted!'' post3)
   \<and> postOf (snd (deletePost exampleDb uidB pid3)) pid3 = None
   \<and> userOf (snd (deletePost exampleDb uidB pid3)) uidB
     = Some (bob\<lparr>posts := [pid2, pid5]\<rparr>)"
proof -
  have fresh: "pidNew \<notin> set (map post_id (postColl exampleDb))"
    by (simp add: exampleDb_fields examplePosts_def example_post_fields
        pid1_def pid2_def pid3_def pid4_def pid5_def pid6_def pidNew_def)
  have created: "fst (route_createPost exampleDb uidA pidNew '' Hello '' ''World!'')
     = Json 201 (CreatedPayload ''Post created successfully!''
         \<lparr>post_id = pidNew, title = ''Hello'', content = ''World!'', author = uidA,
          allowed = False\<rparr> uidA ''Alice Ames'')"
    using fresh exampleDb_users(1)
    by (simp add: route_createPost_def validatePostBody_def trim_def isSpace_def createPost_def
        createPost_try_def tryCatch_def insertPost_def findUserById_def saveUser_def newPost_def
        example_casts exampleDb_fields(1) userOf_def alice_def Let_def)
  have deleted: "fst (deletePost exampleDb uidB pid3)
     = Json 200 (PostPayload ''Post deleted!'' post3)"
    using exampleDb_posts(2) exampleDb_users(2)
    by (simp add: deletePost_def deletePost_try_def tryCatch_def findPostById_cast
        removePostById_def findUserById_def saveUser_def example_casts exampleDb_fields(1)
        example_post_fields userOf_def Let_def)
  have lists: "posts alice @ [pidNew] = [pid1, pidNew]"
      "removeAll pid3 (posts bob) = [pid2, pid5]"
    using example_ids_differ(7) by (auto simp add: alice_def bob_def)
  show ?thesis
    using create_delete_back_reference
        [of exampleDb uidA pidNew "'' Hello ''" "''World!''" pid3, THEN conjunct1]
      create_delete_back_reference
        [of exampleDb uidB pidNew "'' Hello ''" "''World!''" pid3, THEN conjunct2]
      created deleted exampleDb_uniqueIds lists
    by (auto simp add: exampleDb_users example_casts trim_def isSpace_def)
qed

section \<open>Registration\<close>

lemma validateRegister_errors:
  assumes "\<not> isEmail L em \<or> length (trim pw) < 5 \<or> (\<exists>u \<in> set (userColl d). email u = em)"
  shows "\<exists>em' pw' errors. validateRegister L d em pw = (em', pw', errors) \<and> errors \<noteq> []"
proof -
  have "(case findUserByEmail d em of Inl err \<Rightarrow> [message err]
         | Inr (Some userDocument) \<Rightarrow> [''E-Mail address already exists'']
         | Inr None \<Rightarrow> []) \<noteq> []"
    if "\<exists>u \<in> set (userColl d). email u = em"
  proof (cases "connected d")
    case True
    from that have "find (\<lambda>u. email u = em) (userColl d) \<noteq> None"
      by (auto simp: find_None_iff)
    with True show ?thesis by (auto simp: findUserByEmail_def)
  next
    case False
    then show ?thesis by (simp add: findUserByEmail_def)
  qed
  with assms show ?thesis
    by (auto simp: validateRegister_def Let_def)
qed

lemma validateRegister_clean:
  assumes "isEmail L em" "5 \<le> length (trim pw)" "connected d"
    "\<forall>u \<in> set (userColl d). email u \<noteq> em"
  shows "validateRegister L d em pw = (normalizeEmail L em, trim pw, [])"
proof -
  from assms(4) have "find (\<lambda>u. email u = em) (userColl d) = None"
    by (auto simp: find_None_iff)
  with assms show ?thesis
    by (simp add: validateRegister_def findUserByEmail_def Let_def)
qed

text \<open>
  What the chain does catch: a malformed address, a password that trims to fewer than
  five characters, and a submitted address that is, as submitted, the stored address of a
  user. The controller then throws the 422 error and the store is left as it was.
\<close>

lemma register_rejects:
  "\<not> isEmail L em \<or> length (trim pw) < 5 \<or> (\<exists>u \<in> set (userColl d). email u = em) \<Longrightarrow>
   \<exists>errors. errors \<noteq> [] \<and>
     route_register L d newId em pw fn ln
       = (Threw \<lparr>statusCode = Some 422, message = ''Validation failed.'',
                 errdata = Some errors\<rparr>, d)"
proof -
  assume "\<not> isEmail L em \<or> length (trim pw) < 5 \<or> (\<exists>u \<in> set (userColl d). email u = em)"
  from validateRegister_errors [OF this]
  obtain em' pw' errors where "validateRegister L d em pw = (em', pw', errors)" "errors \<noteq> []"
    by blast
  then show ?thesis
    by (simp add: route_register_def register_def)
qed

text \<open>
  A registration that passes the chain stores the user under the normalised address,
  while the chain looked up the address as submitted. So a second registration with the
  same submitted address is refused by the chain when normalisation leaves that address
  as it is.
\<close>

lemma register_success:
  assumes "isEmail L em" "5 \<le> length (trim pw)" "connected d"
    "\<forall>u \<in> set (userColl d). email u \<noteq> em"
    "newId \<notin> set (map user_id (userColl d))"
    "normalizeEmail L em \<notin> set (map email (userColl d))"
  shows "route_register L d newId em pw fn ln
     = (Json 201 (RegisteredPayload ''A user was created.'' newId),
        d\<lparr>userColl := userColl d @
             [newUser newId (normalizeEmail L em) (bcryptHash L (trim pw)) fn ln]\<rparr>)"
  using assms
  by (simp add: route_register_def validateRegister_clean register_def register_try_def
      tryCatch_def insertUser_def newUser_def Let_def)

lemma register_twice:
  assumes "isEmail L em" "5 \<le> length (trim pw)" "connected d"
    "\<forall>u \<in> set (userColl d). email u \<noteq> em"
    "newId \<notin> set (map user_id (userColl d))"
    "normalizeEmail L em = em"
  shows "failStatus (fst (route_register L
            (snd (route_register L d newId em pw fn ln)) newId' em pw fn ln)) = Some 422
     \<and> snd (route_register L (snd (route_register L d newId em pw fn ln)) newId' em pw fn ln)
         = snd (route_register L d newId em pw fn ln)"
proof -
  let ?d1 = "d\<lparr>userColl := userColl d @
             [newUser newId (normalizeEmail L em) (bcryptHash L (trim pw)) fn ln]\<rparr>"
  have n: "normalizeEmail L em \<notin> set (map email (userColl d))"
    using assms(4,6) by auto
  have first: "snd (route_register L d newId em pw fn ln) = ?d1"
    using register_success [OF assms(1-5) n] by simp
  have "\<exists>u \<in> set (userColl ?d1). email u = em"
    using assms(6) by (simp add: newUser_def)
  then have "\<not> isEmail L em \<or> length (trim pw) < 5 \<or> (\<exists>u \<in> set (userColl ?d1). email u = em)"
    by blast
  from validateRegister_errors [OF this]
  obtain em' pw' errors where "validateRegister L ?d1 em pw = (em', pw', errors)" "errors \<noteq> []"
    by blast
  then show ?thesis
    unfolding first by (simp add: route_register_def register_def)
qed

text \<open>
  When normalisation changes the submitted address, the lookup of the second
  registration misses the stored user; the insert is then refused by the store for the
  duplicate address and the handler forwards 500.
\<close>

lemma register_twice_unnormalised:
  assumes "isEmail L em" "5 \<le> length (trim pw)" "connected d"
    "\<forall>u \<in> set (userColl d). email u \<noteq> em"
    "newId \<notin> set (map user_id (userColl d))"
    "normalizeEmail L em \<notin> set (map email (userColl d))"
    "normalizeEmail L em \<noteq> em"
  shows "failStatus (fst (route_register L
            (snd (route_register L d newId em pw fn ln)) newId' em pw fn ln)) = Some 500"
proof -
  let ?d1 = "d\<lparr>userColl := userColl d @
             [newUser newId (normalizeEmail L em) (bcryptHash L (trim pw)) fn ln]\<rparr>"
  have first: "snd (route_register L d newId em pw fn ln) = ?d1"
    using register_success [OF assms(1-6)] by simp
  have fresh: "\<forall>u \<in> set (userColl ?d1). email u \<noteq> em"
    using assms(4,7) by (auto simp: newUser_def)
  have c1: "connected ?d1" using assms(3) by simp
  have "validateRegister L ?d1 em pw = (normalizeEmail L em, trim pw, [])"
    by (rule validateRegister_clean [OF assms(1,2) c1 fresh])
  then show ?thesis
    unfolding first using assms(3)
    by (simp add: route_register_def register_def register_try_def tryCatch_def insertUser_def
        newUser_def Let_def catchBlock_def falsyStatus_def storeError_def)
qed

text \<open>
  C7 has registering a second time with an address already registered fail with 422 and
  create no record. The code misses this when normalisation changes the address: Bob
  registers as Bob@x.com on an empty store and is stored as bob@x.com; registering
  Bob@x.com again, the chain looks up Bob@x.com, finds no user and reports nothing, so the
  controller goes on to save, the store refuses the duplicate address, and the handler
  forwards 500, not 422.
\<close>

theorem register_same_address_twice:
  "route_register exampleLib emptyDb uidA ''Bob@x.com'' ''secret'' ''Bob'' ''Bell''
     = (Json 201 (RegisteredPayload ''A user was created.'' uidA),
        emptyDb\<lparr>userColl := [newUser uidA ''bob@x.com'' ''#secret'' ''Bob'' ''Bell'']\<rparr>)
   \<and> failStatus (fst (route_register exampleLib
         (emptyDb\<lparr>userColl := [newUser uidA ''bob@x.com'' ''#secret'' ''Bob'' ''Bell'']\<rparr>)
         uidB ''Bob@x.com'' ''secret'' ''Bob'' ''Bell'')) = Some 500
   \<and> failStatus (fst (route_register exampleLib
         (emptyDb\<lparr>userColl := [newUser uidA ''bob@x.com'' ''#secret'' ''Bob'' ''Bell'']\<rparr>)
         uidB ''Bob@x.com'' ''secret'' ''Bob'' ''Bell'')) \<noteq> Some 422"
  by (simp add: route_register_def validateRegister_def register_def register_try_def
      tryCatch_def catchBlock_def falsyStatus_def findUserByEmail_def insertUser_def
      storeError_def newUser_def trim_def isSpace_def exampleLib_def lowerLetter_def
      emptyDb_def example_ids_differ Let_def)

section \<open>Listing posts: getPosts\<close>

lemma skip_of_page: "1 \<le> n \<Longrightarrow> nat (n * 4 - 4) = 4 * (nat n - Suc 0)"
  by linarith

lemma queryPage_ok:
  "connected d \<Longrightarrow> 1 \<le> n \<Longrightarrow>
   queryPage d flt n 4 = Inr (specPage (nat n) (filter flt (postColl d)),
                              length (filter flt (postColl d)))"
  by (simp add: queryPage_def findPosts_def countPosts_def skip_of_page specPage_def)

lemma visibleTo_filters:
  "visibleTo None k = (\<lambda>p. allowed p = True)"
  "visibleTo (Some USER) k = (\<lambda>p. allowed p = True)"
  "visibleTo (Some BLOGGER) k = (\<lambda>p. Some (author p) = k)"
  "visibleTo (Some ADMIN) k = (\<lambda>p. True)"
  by (simp_all add: visibleTo_def fun_eq_iff)

lemma cast_nonempty: "castObjectId s = Some j \<Longrightarrow> s \<noteq> []"
  by (auto simp: castObjectId_def split: if_splits)

lemma getPosts_anonymous:
  "connected d \<Longrightarrow> 1 \<le> pageOr1 page \<Longrightarrow>
   getPosts_try d None page =
     (let ps = specPage (nat (pageOr1 page)) (filter (visibleTo None None) (postColl d)) in
      if ps = [] then (Inl (mkError 404 ''Could not find any posts.''), d)
      else (Inr (200, PostsPayload ''Fetched posts successfully!'' ps
                   (length (filter (visibleTo None None) (postColl d)))), d))"
  by (simp add: getPosts_try_def findUserById_def falsyId_def queryPage_ok visibleTo_filters
      falsyArray_def Let_def)

lemma getPosts_identified:
  "connected d \<Longrightarrow> 1 \<le> pageOr1 page \<Longrightarrow> castObjectId i = Some j \<Longrightarrow>
   userOf d j = Some u \<Longrightarrow>
   getPosts_try d (Some i) page =
     (let ps = specPage (nat (pageOr1 page))
                 (filter (visibleTo (Some (role u)) (Some j)) (postColl d)) in
      if ps = [] then (Inl (mkError 404 ''Could not find any posts.''), d)
      else (Inr (200, PostsPayload ''Fetched posts successfully!'' ps
                   (length (filter (visibleTo (Some (role u)) (Some j)) (postColl d)))), d))"
  using cast_nonempty [of i j]
  by (cases "role u")
    (simp_all add: getPosts_try_def findUserById_cast falsyId_def queryPage_ok visibleTo_filters
      falsyArray_def Let_def)

lemma specPage_subset: "set (specPage n xs) \<subseteq> set xs"
  unfolding specPage_def by (meson set_take_subset set_drop_subset subset_trans)

lemma specPage_beyond: "length xs \<le> 4 * (n - 1) \<Longrightarrow> specPage n xs = []"
  by (simp add: specPage_def)

text \<open>
  C3: on a store that answers, for an anonymous viewer or a viewer whose user document
  exists, and for a page number from 1 on (an absent page parameter is page 1),
  \<^verbatim>\<open>getPosts\<close> takes the posts visible to the viewer's role in store order and cuts page
  \<open>n\<close> out of them, four to a page: when that page is empty it fails with 404, and otherwise
  it responds 200 with exactly that page and the number of visible posts. Every post of
  the page is visible to the viewer's role, a page holds at most four posts, and a page
  beyond the last one is empty. The store is left as it was. (The viewer is known to the
  listing by the object id \<open>k\<close> that the attached id casts to.)
\<close>

theorem getPosts_spec:
  assumes "connected d" and "1 \<le> pageOr1 page"
    and "(viewer = None \<and> r = None \<and> k = None) \<or>
         (\<exists>i j u. viewer = Some i \<and> castObjectId i = Some j \<and> userOf d j = Some u \<and>
            r = Some (role u) \<and> k = Some j)"
  shows "getPosts d viewer page =
           (if specPage (nat (pageOr1 page)) (filter (visibleTo r k) (postColl d)) = []
            then Next (mkError 404 ''Could not find any posts.'')
            else Json 200 (PostsPayload ''Fetched posts successfully!''
                   (specPage (nat (pageOr1 page)) (filter (visibleTo r k) (postColl d)))
                   (length (filter (visibleTo r k) (postColl d)))), d)
       \<and> (\<forall>p \<in> set (specPage (nat (pageOr1 page)) (filter (visibleTo r k) (postColl d))).
             visibleTo r k p)
       \<and> length (specPage (nat (pageOr1 page)) (filter (visibleTo r k) (postColl d))) \<le> 4
       \<and> (length (filter (visibleTo r k) (postColl d)) \<le> 4 * (nat (pageOr1 page) - 1) \<longrightarrow>
             specPage (nat (pageOr1 page)) (filter (visibleTo r k) (postColl d)) = [])"
proof (intro conjI)
  from assms(3) show "getPosts d viewer page =
           (if specPage (nat (pageOr1 page)) (filter (visibleTo r k) (postColl d)) = []
            then Next (mkError 404 ''Could not find any posts.'')
            else Json 200 (PostsPayload ''Fetched posts successfully!''
                   (specPage (nat (pageOr1 page)) (filter (visibleTo r k) (postColl d)))
                   (length (filter (visibleTo r k) (postColl d)))), d)"
  proof
    assume "viewer = None \<and> r = None \<and> k = None"
    then show ?thesis
      using assms(1,2)
      by (simp add: getPosts_def getPosts_anonymous tryCatch_def catchBlock_def falsyStatus_def
          mkError_def Let_def)
  next
    assume "\<exists>i j u. viewer = Some i \<and> castObjectId i = Some j \<and> userOf d j = Some u \<and>
            r = Some (role u) \<and> k = Some j"
    then obtain i j u where "viewer = Some i" "castObjectId i = Some j" "userOf d j = Some u"
        "r = Some (role u)" "k = Some j"
      by blast
    then show ?thesis
      using assms(1,2)
      by (simp add: getPosts_def getPosts_identified tryCatch_def catchBlock_def falsyStatus_def
          mkError_def Let_def)
  qed
  show "\<forall>p \<in> set (specPage (nat (pageOr1 page)) (filter (visibleTo r k) (postColl d))).
             visibleTo r k p"
    using specPage_subset [of "nat (pageOr1 page)" "filter (visibleTo r k) (postColl d)"]
    by auto
  show "length (specPage (nat (pageOr1 page)) (filter (visibleTo r k) (postColl d))) \<le> 4"
    by (simp add: specPage_def)
  show "length (filter (visibleTo r k) (postColl d)) \<le> 4 * (nat (pageOr1 page) - 1) \<longrightarrow>
             specPage (nat (pageOr1 page)) (filter (visibleTo r k) (postColl d)) = []"
    by (simp add: specPage_beyond)
qed

theorem getPosts_spec_witness:
  "connected exampleDb
   \<and> listedIds (fst (getPosts exampleDb None None)) = Some [pid2, pid3, pid4, pid6]
   \<and> failStatus (fst (getPosts exampleDb None (Some 2))) = Some 404
   \<and> listedIds (fst (getPosts exampleDb (Some uidA) (Some 1))) = Some [pid2, pid3, pid4, pid6]
   \<and> listedIds (fst (getPosts exampleDb (Some uidB) (Some 1))) = Some [pid2, pid3, pid5]
   \<and> listedIds (fst (getPosts exampleDb (Some uidR) (Some 2))) = Some [pid5, pid6]
   \<and> failStatus (fst (getPosts exampleDb (Some uidR) (Some 3))) = Some 404"
proof -
  have c: "connected exampleDb" by (rule exampleDb_fields(1))
  have anon: "(None = None \<and> None = None \<and> None = None) \<or>
         (\<exists>i j u. None = Some i \<and> castObjectId i = Some j \<and> userOf exampleDb j = Some u \<and>
            None = Some (role u) \<and> None = Some j)"
    by simp
  have known: "(Some s = None \<and> Some (role v) = None \<and> Some s = None) \<or>
         (\<exists>i j u. Some s = Some i \<and> castObjectId i = Some j \<and> userOf exampleDb j = Some u \<and>
            Some (role v) = Some (role u) \<and> Some s = Some j)"
    if "castObjectId s = Some s" "userOf exampleDb s = Some v" for s v
    using that by simp
  note ev = pageOr1_def specPage_def visibleTo_def exampleDb_fields examplePosts_def
    mkError_def example_roles example_post_fields example_ids_differ
  have "listedIds (fst (getPosts exampleDb None None)) = Some [pid2, pid3, pid4, pid6]"
    using getPosts_spec [OF c _ anon, of None] by (simp add: ev)
  moreover have "failStatus (fst (getPosts exampleDb None (Some 2))) = Some 404"
    using getPosts_spec [OF c _ anon, of "Some 2"] by (simp add: ev)
  moreover have "listedIds (fst (getPosts exampleDb (Some uidA) (Some 1)))
      = Some [pid2, pid3, pid4, pid6]"
    using getPosts_spec [OF c _ known [OF example_casts(1) exampleDb_users(1)], of "Some 1"]
    by (simp add: ev)
  moreover have "listedIds (fst (getPosts exampleDb (Some uidB) (Some 1)))
      = Some [pid2, pid3, pid5]"
    using getPosts_spec [OF c _ known [OF example_casts(2) exampleDb_users(2)], of "Some 1"]
    by (simp add: ev)
  moreover have "listedIds (fst (getPosts exampleDb (Some uidR) (Some 2))) = Some [pid5, pid6]"
    using getPosts_spec [OF c _ known [OF example_casts(3) exampleDb_users(3)], of "Some 2"]
    by (simp add: ev)
  moreover have "failStatus (fst (getPosts exampleDb (Some uidR) (Some 3))) = Some 404"
    using getPosts_spec [OF c _ known [OF example_casts(3) exampleDb_users(3)], of "Some 3"]
    by (simp add: ev)
  ultimately show ?thesis using c by simp
qed

section \<open>The allowed flag across all operations\<close>

text \<open>
  C1, as stated: no operation other than \<^verbatim>\<open>allowPostRequest\<close> changes a post's allowed flag
  from false to true. \<^verbatim>\<open>updatePost\<close> does: Alice, whose role is USER, edits her own pending
  post, and the post is stored with allowed set to true.
\<close>

theorem only_approval_publishes_counterexample:
  "postOf exampleDb pid1 = Some post1 \<and> allowed post1 = False
   \<and> userOf exampleDb uidA = Some alice \<and> role alice = USER
   \<and> postOf (snd (exec exampleLib exampleDb (UpdatePost uidA pid1 ''Hello'' ''World!''))) pid1
     = Some (post1\<lparr>title := ''Hello'', content := ''World!'', allowed := True\<rparr>)
   \<and> allowed (post1\<lparr>title := ''Hello'', content := ''World!'', allowed := True\<rparr>) = True"
proof -
  have valid: "5 \<le> length (trim ''Hello'')" "5 \<le> length (trim ''World!'')"
    "trim ''Hello'' = ''Hello''" "trim ''World!'' = ''World!''"
    by (simp_all add: trim_def isSpace_def)
  have "postOf (snd (route_updatePost exampleDb uidA pid1 ''Hello'' ''World!'')) pid1
      = Some (post1\<lparr>title := ''Hello'', content := ''World!'', allowed := True\<rparr>)"
    using updatePost_try_author [OF exampleDb_fields(1) example_casts(4) exampleDb_posts(1)
        example_post_fields(7), of "''Hello''" "''World!''"]
      find_replaceById [of post_id pid1 examplePosts post1
        "post1\<lparr>title := ''Hello'', content := ''World!'', allowed := True\<rparr>"]
      exampleDb_posts(1)
    by (simp add: updatePost_valid valid postOf_def exampleDb_fields example_post_fields)
  then show ?thesis
    by (simp add: exampleDb_posts exampleDb_users example_roles example_post_fields)
qed

lemma snd_tryCatch: "snd (tryCatch r) = snd r"
  by (simp add: tryCatch_def split: sum.splits prod.splits)

lemma snd_tryCatchNaming: "snd (tryCatchNaming m i r) = snd r"
  by (simp add: tryCatchNaming_def split: sum.splits prod.splits)

lemma getPosts_state: "snd (getPosts d viewer page) = d"
  by (simp add: getPosts_def snd_tryCatch getPosts_try_def Let_def
      split: sum.splits option.splits prod.splits)

lemma getPostRequests_state: "snd (getPostRequests d viewerId page) = d"
  by (simp add: getPostRequests_def snd_tryCatch getPostRequests_try_def Let_def
      split: sum.splits option.splits prod.splits)

lemma getPost_state: "snd (getPost d postId) = d"
  by (simp add: getPost_def snd_tryCatchNaming getPost_try_def
      split: sum.splits option.splits)

lemma getUser_state: "snd (getUser d userId) = d"
  by (simp add: getUser_def snd_tryCatchNaming getUser_try_def
      split: sum.splits option.splits)

lemma getUsers_state: "snd (getUsers d) = d"
  by (simp add: getUsers_def snd_tryCatch getUsers_try_def split: sum.splits)

lemma login_state: "snd (login L d em pw) = d"
  by (simp add: login_def snd_tryCatch login_try_def split: sum.splits option.splits)

lemma register_posts: "postColl (snd (route_register L d newId em pw fn ln)) = postColl d"
  by (auto simp: route_register_def register_def snd_tryCatch register_try_def insertUser_def
      Let_def split: prod.splits sum.splits if_splits)

lemma createPost_posts:
  "postColl (snd (route_createPost d userId newId t c)) = postColl d \<or>
   (\<exists>np. newId \<notin> set (map post_id (postColl d)) \<and>
      postColl (snd (route_createPost d userId newId t c)) = postColl d @ [np])"
  by (auto simp: route_createPost_def createPost_def snd_tryCatch createPost_try_def
      insertPost_def findUserById_def saveUser_def newPost_def Let_def
      split: prod.splits sum.splits option.splits if_splits)

lemma updatePost_posts:
  "postColl (snd (route_updatePost d userId postId t c)) = postColl d \<or>
   (\<exists>j p0 t' c'. castObjectId postId = Some j \<and> postOf d j = Some p0 \<and> author p0 = userId \<and>
      postColl (snd (route_updatePost d userId postId t c))
        = replaceById post_id (p0\<lparr>title := t', content := c', allowed := True\<rparr>) (postColl d))"
  by (auto simp: route_updatePost_def updatePost_def snd_tryCatch updatePost_try_def
      findPostById_def savePost_def postOf_def Let_def
      split: prod.splits sum.splits option.splits if_splits)

lemma deletePost_posts:
  "postColl (snd (deletePost d userId postId)) = postColl d \<or>
   (\<exists>j. castObjectId postId = Some j \<and>
      postColl (snd (deletePost d userId postId))
        = removeFirst (\<lambda>q. post_id q = j) (postColl d))"
  by (auto simp: deletePost_def snd_tryCatch deletePost_try_def findPostById_def
      removePostById_def findUserById_def saveUser_def Let_def
      split: sum.splits option.splits if_splits)

lemma allowPostRequest_posts:
  "postColl (snd (allowPostRequest d viewerId postId)) = postColl d \<or>
   (\<exists>j k u p0. castObjectId postId = Some j \<and> castObjectId viewerId = Some k \<and>
      userOf d k = Some u \<and> role u = ADMIN \<and> postOf d j = Some p0 \<and>
      postColl (snd (allowPostRequest d viewerId postId))
        = replaceById post_id (p0\<lparr>allowed := True\<rparr>) (postColl d))"
  by (auto simp: allowPostRequest_def snd_tryCatch allowPostRequest_try_def findPostById_def
      findUserById_def findUserByObjectId_def savePost_def saveUser_def postOf_def userOf_def
      Let_def
      split: sum.splits option.splits if_splits)

lemma find_append_found:
  "find P xs = Some x \<Longrightarrow> find P (xs @ ys) = Some x"
  by (induction xs) (auto split: if_splits)

lemma find_replaceById_cases:
  assumes "find (\<lambda>q. f q = i) xs = Some p"
    and "find (\<lambda>q. f q = i) (replaceById f x xs) = Some p'"
  shows "(f x \<noteq> i \<and> p' = p) \<or> (f x = i \<and> p' = x)"
proof (cases "f x = i")
  case True
  with assms find_replaceById [of f i xs p x] show ?thesis by simp
next
  case False
  with assms find_replaceById_other [of f x i xs] show ?thesis by simp
qed

lemma postOf_cong: "postColl d' = postColl d \<Longrightarrow> postOf d' i = postOf d i"
  by (simp add: postOf_def)

text \<open>
  C1, amended: across every operation of the API, a stored post's allowed flag never goes
  from true to false, and it goes from false to true only by \<^verbatim>\<open>allowPostRequest\<close> on that
  post by a viewer whose role is ADMIN, or by \<^verbatim>\<open>updatePost\<close> on that post by its author.
  (Post ids are unique in the store; the operation names the post by a string that casts
  to the post's object id.)
\<close>

theorem allowed_transitions:
  assumes "distinct (map post_id (postColl d))"
    and "postOf d i = Some p"
    and "postOf (snd (exec L d op)) i = Some p'"
  shows "(allowed p \<longrightarrow> allowed p') \<and>
         (\<not> allowed p \<and> allowed p' \<longrightarrow>
            (\<exists>v s u. op = AllowPostRequest v s \<and> castObjectId s = Some i \<and>
               userAt d v = Some u \<and> role u = ADMIN) \<or>
            (\<exists>s t c. op = UpdatePost (author p) s t c \<and> castObjectId s = Some i))"
proof (cases op)
  case (GetPosts viewer page)
  with assms show ?thesis by (simp add: getPosts_state)
next
  case (GetPostRequests viewerId page)
  with assms show ?thesis by (simp add: getPostRequests_state)
next
  case (AllowPostRequest viewerId postId)
  from allowPostRequest_posts [of d viewerId postId] show ?thesis
  proof
    assume "postColl (snd (allowPostRequest d viewerId postId)) = postColl d"
    from postOf_cong [OF this, of i] assms AllowPostRequest show ?thesis by simp
  next
    assume "\<exists>j k u p0. castObjectId postId = Some j \<and> castObjectId viewerId = Some k \<and>
      userOf d k = Some u \<and> role u = ADMIN \<and> postOf d j = Some p0 \<and>
      postColl (snd (allowPostRequest d viewerId postId))
        = replaceById post_id (p0\<lparr>allowed := True\<rparr>) (postColl d)"
    then obtain j k u p0 where h: "castObjectId postId = Some j" "castObjectId viewerId = Some k"
        "userOf d k = Some u" "role u = ADMIN" "postOf d j = Some p0"
        "postColl (snd (allowPostRequest d viewerId postId))
           = replaceById post_id (p0\<lparr>allowed := True\<rparr>) (postColl d)"
      by blast
    have k: "post_id (p0\<lparr>allowed := True\<rparr>) = j"
      using postOf_id [OF h(5)] by simp
    have v: "userAt d viewerId = Some u" using h(2,3) by (simp add: userAt_cast)
    from assms(2,3) AllowPostRequest h(6)
    have "(post_id (p0\<lparr>allowed := True\<rparr>) \<noteq> i \<and> p' = p) \<or>
          (post_id (p0\<lparr>allowed := True\<rparr>) = i \<and> p' = p0\<lparr>allowed := True\<rparr>)"
      using find_replaceById_cases [of post_id i "postColl d" p "p0\<lparr>allowed := True\<rparr>" p']
      by (simp add: postOf_def)
    with k v h(1,4) AllowPostRequest show ?thesis by auto
  qed
next
  case (GetPost postId)
  with assms show ?thesis by (simp add: getPost_state)
next
  case (CreatePost userId newId t c)
  from createPost_posts [of d userId newId t c] show ?thesis
  proof
    assume "postColl (snd (route_createPost d userId newId t c)) = postColl d"
    from postOf_cong [OF this, of i] assms CreatePost show ?thesis by simp
  next
    assume "\<exists>np. newId \<notin> set (map post_id (postColl d)) \<and>
      postColl (snd (route_createPost d userId newId t c)) = postColl d @ [np]"
    then obtain np where
      "postColl (snd (route_createPost d userId newId t c)) = postColl d @ [np]" by blast
    with assms(2,3) CreatePost find_append_found [of "\<lambda>q. post_id q = i" "postColl d" p "[np]"]
    show ?thesis by (simp add: postOf_def)
  qed
next
  case (UpdatePost userId postId t c)
  from updatePost_posts [of d userId postId t c] show ?thesis
  proof
    assume "postColl (snd (route_updatePost d userId postId t c)) = postColl d"
    from postOf_cong [OF this, of i] assms UpdatePost show ?thesis by simp
  next
    assume "\<exists>j p0 t' c'. castObjectId postId = Some j \<and> postOf d j = Some p0 \<and>
      author p0 = userId \<and>
      postColl (snd (route_updatePost d userId postId t c))
        = replaceById post_id (p0\<lparr>title := t', content := c', allowed := True\<rparr>) (postColl d)"
    then obtain j p0 t' c' where h: "castObjectId postId = Some j" "postOf d j = Some p0"
        "author p0 = userId"
        "postColl (snd (route_updatePost d userId postId t c))
           = replaceById post_id (p0\<lparr>title := t', content := c', allowed := True\<rparr>) (postColl d)"
      by blast
    let ?q = "p0\<lparr>title := t', content := c', allowed := True\<rparr>"
    have k: "post_id ?q = j"
      using postOf_id [OF h(2)] by simp
    from assms(2,3) UpdatePost h(4)
    have "(post_id ?q \<noteq> i \<and> p' = p) \<or> (post_id ?q = i \<and> p' = ?q)"
      using find_replaceById_cases [of post_id i "postColl d" p ?q p']
      by (simp add: postOf_def)
    with k h(1,2,3) assms(2) UpdatePost show ?thesis by auto
  qed
next
  case (DeletePost userId postId)
  from deletePost_posts [of d userId postId] show ?thesis
  proof
    assume "postColl (snd (deletePost d userId postId)) = postColl d"
    from postOf_cong [OF this, of i] assms DeletePost show ?thesis by simp
  next
    assume "\<exists>j. castObjectId postId = Some j \<and>
      postColl (snd (deletePost d userId postId))
        = removeFirst (\<lambda>q. post_id q = j) (postColl d)"
    then obtain j where r: "postColl (snd (deletePost d userId postId))
        = removeFirst (\<lambda>q. post_id q = j) (postColl d)"
      by blast
    show ?thesis
    proof (cases "j = i")
      case True
      with assms(1,3) DeletePost r find_removeFirst_distinct [of post_id "postColl d" i]
      show ?thesis by (simp add: postOf_def)
    next
      case False
      then have "i \<noteq> j" by simp
      from find_removeFirst_other [OF this, of post_id "postColl d"] assms(2,3) DeletePost r
      show ?thesis by (simp add: postOf_def)
    qed
  qed
next
  case GetUsers
  with assms show ?thesis by (simp add: getUsers_state)
next
  case (GetUser userId)
  with assms show ?thesis by (simp add: getUser_state)
next
  case (Register newId em pw fn ln)
  from postOf_cong [OF register_posts [of L d newId em pw fn ln], of i] assms Register
  show ?thesis by simp
next
  case (Login em pw)
  with assms show ?thesis by (simp add: login_state)
qed

theorem allowed_transitions_witness:
  "distinct (map post_id (postColl exampleDb))
   \<and> postOf exampleDb pid1 = Some post1 \<and> \<not> allowed post1
   \<and> postOf (snd (exec exampleLib exampleDb (AllowPostRequest uidR pid1))) pid1
       = Some (post1\<lparr>allowed := True\<rparr>)
   \<and> (\<exists>v s u. AllowPostRequest uidR pid1 = AllowPostRequest v s \<and> castObjectId s = Some pid1 \<and>
          userAt exampleDb v = Some u \<and> role u = ADMIN)"
proof -
  have before: "postOf exampleDb pid1 = Some post1"
    by (rule exampleDb_posts(1))
  have author: "userOf exampleDb (author post1) = Some alice" "role alice \<noteq> ADMIN"
    by (simp_all add: exampleDb_users example_roles example_post_fields)
  have after: "postOf (snd (exec exampleLib exampleDb (AllowPostRequest uidR pid1))) pid1
       = Some (post1\<lparr>allowed := True\<rparr>)"
    using allowPostRequest_promote [OF exampleDb_fields(1) example_casts(4) example_casts(3)
        exampleDb_users(3) example_roles(3) before author] postOf_saved [OF before]
    by (simp add: postOf_def)
  from allowed_transitions [OF exampleDb_uniqueIds before after]
  have "(\<exists>v s u. AllowPostRequest uidR pid1 = AllowPostRequest v s \<and>
          castObjectId s = Some pid1 \<and> userAt exampleDb v = Some u \<and> role u = ADMIN)"
    by (simp add: example_post_fields)
  with exampleDb_uniqueIds before after show ?thesis by (simp add: example_post_fields)
qed

section \<open>Unique ids are kept by every operation\<close>

lemma map_key_replaceById: "map f (replaceById f x xs) = map f xs"
  unfolding replaceById_def by (induction xs) auto

lemma set_removeFirst: "set (removeFirst P xs) \<subseteq> set xs"
  by (induction xs) auto

lemma distinct_removeFirst: "distinct (map f xs) \<Longrightarrow> distinct (map f (removeFirst P xs))"
proof (induction xs)
  case Nil
  then show ?case by simp
next
  case (Cons x xs)
  with set_removeFirst [of P xs] show ?case by auto
qed

lemma uniqueIds_kept: "uniqueIds d \<Longrightarrow> uniqueIds (snd (exec L d op))"
proof (cases op)
  case (GetPosts viewer page)
  then show "uniqueIds d \<Longrightarrow> ?thesis" by (simp add: getPosts_state)
next
  case (GetPostRequests viewerId page)
  then show "uniqueIds d \<Longrightarrow> ?thesis" by (simp add: getPostRequests_state)
next
  case (AllowPostRequest viewerId postId)
  then show "uniqueIds d \<Longrightarrow> ?thesis"
    by (auto simp: uniqueIds_def allowPostRequest_def snd_tryCatch allowPostRequest_try_def
        findPostById_def findUserById_def findUserByObjectId_def savePost_def saveUser_def
        map_key_replaceById Let_def
        split: sum.splits option.splits if_splits)
next
  case (GetPost postId)
  then show "uniqueIds d \<Longrightarrow> ?thesis" by (simp add: getPost_state)
next
  case (CreatePost userId newId t c)
  then show "uniqueIds d \<Longrightarrow> ?thesis"
    by (auto simp: uniqueIds_def route_createPost_def createPost_def snd_tryCatch
        createPost_try_def insertPost_def findUserById_def saveUser_def newPost_def
        map_key_replaceById Let_def
        split: prod.splits sum.splits option.splits if_splits)
next
  case (UpdatePost userId postId t c)
  then show "uniqueIds d \<Longrightarrow> ?thesis"
    by (auto simp: uniqueIds_def route_updatePost_def updatePost_def snd_tryCatch
        updatePost_try_def findPostById_def savePost_def map_key_replaceById Let_def
        split: prod.splits sum.splits option.splits if_splits)
next
  case (DeletePost userId postId)
  then show "uniqueIds d \<Longrightarrow> ?thesis"
    by (auto simp: uniqueIds_def deletePost_def snd_tryCatch deletePost_try_def findPostById_def
        removePostById_def findUserById_def saveUser_def map_key_replaceById
        distinct_removeFirst Let_def
        split: sum.splits option.splits if_splits)
next
  case GetUsers
  then show "uniqueIds d \<Longrightarrow> ?thesis" by (simp add: getUsers_state)
next
  case (GetUser userId)
  then show "uniqueIds d \<Longrightarrow> ?thesis" by (simp add: getUser_state)
next
  case (Register newId em pw fn ln)
  then show "uniqueIds d \<Longrightarrow> ?thesis"
    by (auto simp: uniqueIds_def route_register_def register_def snd_tryCatch register_try_def
        insertUser_def newUser_def Let_def
        split: prod.splits sum.splits if_splits)
next
  case (Login em pw)
  then show "uniqueIds d \<Longrightarrow> ?thesis" by (simp add: login_state)
qed

end
